theory Spec2Isabelle
  imports Main
begin

section \<open>JavaScript values used by the orchestrator\<close>

text \<open>
  The orchestrator (\<^verbatim>\<open>src/index.js\<close>, class \<^verbatim>\<open>NatAPI\<close>) receives loosely typed
  arguments. \<open>js_val\<close> is the part of the JavaScript value space that the protocol field
  of a request can hold; \<open>Other\<close> stands for any object, array or function (always
  truthy, \<^verbatim>\<open>typeof\<close> different from \<^verbatim>\<open>'string'\<close>).
\<close>

datatype js_val = Undefined | Null | Str string | Num int | Bool bool | Other

fun truthy :: "js_val \<Rightarrow> bool" where
  "truthy Undefined = False"
| "truthy Null = False"
| "truthy (Str s) = (s \<noteq> [])"
| "truthy (Num n) = (n \<noteq> 0)"
| "truthy (Bool b) = b"
| "truthy Other = True"

text \<open>Thrown JavaScript exceptions, with their message.\<close>

datatype error = Error string | TypeError string

text \<open>\<^verbatim>\<open>String.prototype.toUpperCase\<close> / \<^verbatim>\<open>toLowerCase\<close> on the ASCII letters (no other
  character upper-cases to one of the letters of \<^verbatim>\<open>UDP\<close> or \<^verbatim>\<open>TCP\<close>).\<close>

definition upper_char :: "char \<Rightarrow> char" where
  "upper_char c =
     (let n = of_char c :: nat in if 97 \<le> n \<and> n \<le> 122 then char_of (n - 32) else c)"

definition lower_char :: "char \<Rightarrow> char" where
  "lower_char c =
     (let n = of_char c :: nat in if 65 \<le> n \<and> n \<le> 90 then char_of (n + 32) else c)"

definition toUpperCase :: "string \<Rightarrow> string" where
  "toUpperCase s = map upper_char s"

definition toLowerCase :: "string \<Rightarrow> string" where
  "toLowerCase s = map lower_char s"

text \<open>Number-to-string conversion as used by string concatenation (decimal notation, which
  is what JavaScript prints for integers of magnitude below \<open>10^21\<close>).\<close>

fun show_nat :: "nat \<Rightarrow> string" where
  "show_nat n =
     (if n < 10 then [''0123456789'' ! n]
      else show_nat (n div 10) @ [''0123456789'' ! (n mod 10)])"

declare show_nat.simps [simp del]

definition show_int :: "int \<Rightarrow> string" where
  "show_int i = (if i < 0 then CHR ''-'' # show_nat (nat (- i)) else show_nat (nat i))"

text \<open>A port field is a number or \<^verbatim>\<open>undefined\<close>.\<close>

definition show_port :: "int option \<Rightarrow> string" where
  "show_port p = (case p of None \<Rightarrow> ''undefined'' | Some n \<Rightarrow> show_int n)"

fun js_toString :: "js_val \<Rightarrow> string" where
  "js_toString Undefined = ''undefined''"
| "js_toString Null = ''null''"
| "js_toString (Str s) = s"
| "js_toString (Num n) = show_int n"
| "js_toString (Bool b) = (if b then ''true'' else ''false'')"
| "js_toString Other = ''[object Object]''"

section \<open>The array helper \<^verbatim>\<open>unordered-array-remove\<close>\<close>

text \<open>
  \<^verbatim>\<open>arrayRemove(arr, i)\<close> is the npm package \<^verbatim>\<open>unordered-array-remove\<close>: an index out of
  range (in particular \<open>-1\<close>, the "not found" result of \<^verbatim>\<open>findIndex\<close>/\<^verbatim>\<open>indexOf\<close>) leaves
  the array alone; otherwise the last element is popped and, unless it was the one to
  remove, written over position \<open>i\<close>.
\<close>

definition arrayRemove :: "'a list \<Rightarrow> int \<Rightarrow> 'a list" where
  "arrayRemove arr i =
     (if int (length arr) \<le> i \<or> i < 0 then arr
      else (let lst = last arr; arr' = butlast arr
            in if nat i < length arr' then arr'[nat i := lst] else arr'))"

text \<open>\<^verbatim>\<open>Array.prototype.findIndex\<close>: the index of the first element satisfying the
  predicate, \<open>-1\<close> when there is none.\<close>

fun findIndex :: "('a \<Rightarrow> bool) \<Rightarrow> 'a list \<Rightarrow> int" where
  "findIndex P [] = - 1"
| "findIndex P (x # xs) =
     (if P x then 0 else (let i = findIndex P xs in if i < 0 then - 1 else i + 1))"

section \<open>Requests, registry entries and the client state\<close>

text \<open>
  The options object of \<^verbatim>\<open>map\<close>/\<^verbatim>\<open>unmap\<close>. A field that is \<^verbatim>\<open>undefined\<close> (or \<^verbatim>\<open>null\<close>)
  is \<open>None\<close>. The protocol field keeps its JavaScript value, because validation inspects
  its type.
\<close>

record opts =
  publicPort :: "int option"
  privatePort :: "int option"
  protocol :: js_val
  description :: "string option"
  ttl :: "int option"
  gateway :: "string option"

text \<open>The first and second positional argument of \<^verbatim>\<open>map\<close>/\<^verbatim>\<open>unmap\<close>, by
  \<^verbatim>\<open>typeof\<close>: a number, an object, \<^verbatim>\<open>null\<close> (whose \<^verbatim>\<open>typeof\<close> is \<^verbatim>\<open>'object'\<close> too), or
  anything else (\<^verbatim>\<open>undefined\<close>, a string, a boolean, ...).\<close>

datatype arg = ArgNum int | ArgObj opts | ArgNull | ArgOther

text \<open>Calls issued to the two protocol clients (\<^verbatim>\<open>lib/pmp\<close>, \<^verbatim>\<open>lib/upnp\<close>), with the
  arguments the orchestrator passes.\<close>

datatype call =
    PmpPortMapping "int option" "int option" js_val "int option"
  | PmpPortUnmapping "int option" "int option" js_val
  | PmpExternalIp
  | PmpClose
  | UpnpPortMapping "int option" "int option" "string option" js_val "int option"
  | UpnpPortUnmapping "int option" "int option" js_val
  | UpnpExternalIp
  | UpnpDestroy

text \<open>How an awaited promise settles, and how a NAT-PMP request raced against the
  one-second timer ends.\<close>

datatype outcome = Resolved string | Rejected string

datatype raced = Won outcome | TimedOut

text \<open>
  The network and the two protocol clients are the environment: each call is answered
  as a function of the calls made so far and of the call itself. \<open>pmp\<close> answers the three
  raced NAT-PMP requests, \<open>upnp\<close> the UPnP requests, \<open>closing\<close> the two awaited
  release calls of \<^verbatim>\<open>destroy\<close>.
\<close>

record env =
  pmp :: "call list \<Rightarrow> call \<Rightarrow> raced"
  upnp :: "call list \<Rightarrow> call \<Rightarrow> outcome"
  closing :: "call list \<Rightarrow> call \<Rightarrow> outcome"

text \<open>What a renewal timer runs when it fires: the closure passed to \<^verbatim>\<open>setInterval\<close> in
  \<^verbatim>\<open>_pmpMap\<close> and in \<^verbatim>\<open>_upnpMap\<close>, with the request it captured.\<close>

datatype callback = PmpRenewal opts | UpnpRenewal opts

record timer =
  callback :: callback
  period :: int

text \<open>Modelled from the spec: \<^verbatim>\<open>lib/pmp/index.js\<close> (the NAT-PMP client) is not under
  \<^verbatim>\<open>src/\<close>. A client holds the gateway address and a socket that is open or closed
  (\<^verbatim>\<open>socket == null\<close>); \<^verbatim>\<open>new NatPMP(gateway)\<close> gives an open one, \<^verbatim>\<open>close()\<close> closes it.\<close>

record pmp_client =
  pmp_gateway :: "string option"
  socket :: bool

definition NatPMP :: "string option \<Rightarrow> pmp_client" where
  "NatPMP g = \<lparr>pmp_gateway = g, socket = True\<rparr>"

definition pmp_close :: "pmp_client \<Rightarrow> pmp_client" where
  "pmp_close c = c\<lparr>socket := False\<rparr>"

text \<open>
  The fields of a \<^verbatim>\<open>NatAPI\<close> instance. \<open>default_ttl\<close>, \<open>default_description\<close> and
  \<open>default_gateway\<close> are \<^verbatim>\<open>this.ttl\<close>, \<^verbatim>\<open>this.description\<close> and \<^verbatim>\<open>this.gateway\<close>;
  \<open>timeout\<close> is \<^verbatim>\<open>this._timeout\<close>; the other underscore fields drop the underscore.
  A registry entry is an object: its identity (\<open>fst\<close>) is what \<^verbatim>\<open>indexOf\<close> compares,
  \<open>nextRef\<close> is the next unused identity. \<open>timers\<close> is the runtime's table of live
  interval timers, \<open>nextTimer\<close> the next unused handle, and \<open>trace\<close> logs every call
  made to a protocol client, in order.
\<close>

record state =
  default_ttl :: int
  default_description :: string
  default_gateway :: "string option"
  autoUpdate :: bool
  upnpPermanentFallback :: bool
  timeout :: int
  destroyed :: bool
  openPorts :: "(nat \<times> opts) list"
  upnpIntervals :: "string \<rightharpoonup> nat"
  pmpIntervals :: "string \<rightharpoonup> nat"
  pmpClient :: "pmp_client option"
  upnpClient :: bool
  enablePMP :: bool
  enableUPNP :: bool
  nextRef :: nat
  timers :: "nat \<rightharpoonup> timer"
  nextTimer :: nat
  trace :: "call list"

text \<open>Constructor options; \<open>None\<close> is an option left out. \<open>v4\<close> is the result of the
  default-gateway lookup (\<open>None\<close> when it throws).\<close>

record ctor_opts =
  c_ttl :: "int option"
  c_description :: "string option"
  c_gateway :: "string option"
  c_autoUpdate :: "bool option"
  c_upnpPermanentFallback :: "bool option"
  c_enablePMP :: "bool option"
  c_enableUPNP :: "bool option"

definition NatAPI :: "string option option \<Rightarrow> ctor_opts \<Rightarrow> state" where
  "NatAPI v4 c =
     (let t = (case c_ttl c of None \<Rightarrow> 7200
               | Some n \<Rightarrow> if n = 0 then 7200 else max n 1200);
          pmpOn = (c_enablePMP c \<noteq> Some False);
          upnpOn = (c_enableUPNP c \<noteq> Some False)
      in \<lparr>default_ttl = t,
          default_description =
            (case c_description c of None \<Rightarrow> ''NatAPI''
             | Some d \<Rightarrow> if d = [] then ''NatAPI'' else d),
          default_gateway =
            (case c_gateway c of None \<Rightarrow> None | Some g \<Rightarrow> if g = [] then None else Some g),
          autoUpdate = (c_autoUpdate c \<noteq> Some False),
          upnpPermanentFallback = (c_upnpPermanentFallback c = Some True),
          timeout = (t - 600) * 1000,
          destroyed = False,
          openPorts = [],
          upnpIntervals = Map.empty,
          pmpIntervals = Map.empty,
          pmpClient =
            (if pmpOn then (case v4 of None \<Rightarrow> None | Some g \<Rightarrow> Some (NatPMP g)) else None),
          upnpClient = upnpOn,
          enablePMP = pmpOn,
          enableUPNP = upnpOn,
          nextRef = 0,
          timers = Map.empty,
          nextTimer = 0,
          trace = []\<rparr>)"

section \<open>Validation\<close>

text \<open>
  \<^verbatim>\<open>_validateInput(publicPort, privatePort)\<close>: the three caller shapes (options object,
  two numbers, one number), then the protocol check, then the defaults. Nothing else is
  checked; in particular the port numbers are taken as they come.
\<close>

definition valid_protocol_string :: "string \<Rightarrow> bool" where
  "valid_protocol_string p = (toUpperCase p \<in> set [''UDP'', ''TCP''])"

definition fill_defaults :: "state \<Rightarrow> opts \<Rightarrow> error + opts" where
  "fill_defaults s rq =
     (if truthy (protocol rq) \<and>
         (case protocol rq of Str p \<Rightarrow> \<not> valid_protocol_string p | _ \<Rightarrow> True)
      then Inl (Error ''protocol is invalid'')
      else Inr (rq\<lparr>
        protocol := (if truthy (protocol rq) then protocol rq else Null),
        description :=
          (case description rq of None \<Rightarrow> Some (default_description s)
           | Some d \<Rightarrow> if d = [] then Some (default_description s) else Some d),
        ttl :=
          (case ttl rq of None \<Rightarrow> Some (default_ttl s)
           | Some t \<Rightarrow> if t = 0 then Some (default_ttl s) else Some t),
        gateway :=
          (case gateway rq of None \<Rightarrow> default_gateway s
           | Some g \<Rightarrow> if g = [] then default_gateway s else Some g)\<rparr>))"

definition empty_opts :: opts where
  "empty_opts = \<lparr>publicPort = None, privatePort = None, protocol = Undefined,
     description = None, ttl = None, gateway = None\<rparr>"

definition validateInput :: "state \<Rightarrow> arg \<Rightarrow> arg \<Rightarrow> error + opts" where
  "validateInput s a b =
     (case a of
        ArgObj rq \<Rightarrow> fill_defaults s rq
      | ArgNull \<Rightarrow> Inl (TypeError ''Cannot read properties of null'')
      | ArgNum p \<Rightarrow>
          (case b of
             ArgNum q \<Rightarrow>
               fill_defaults s (empty_opts\<lparr>publicPort := Some p, privatePort := Some q\<rparr>)
           | _ \<Rightarrow>
               fill_defaults s (empty_opts\<lparr>publicPort := Some p, privatePort := Some p\<rparr>))
      | ArgOther \<Rightarrow> Inl (Error ''port was not specified''))"

section \<open>Timers and interval keys\<close>

definition interval_key :: "opts \<Rightarrow> string" where
  "interval_key rq =
     show_port (publicPort rq) @ '':'' @ show_port (privatePort rq) @ ''-'' @
     js_toString (protocol rq)"

definition setInterval :: "callback \<Rightarrow> int \<Rightarrow> state \<Rightarrow> nat \<times> state" where
  "setInterval cb ms s =
     (nextTimer s,
      s\<lparr>timers := (timers s)(nextTimer s \<mapsto> \<lparr>callback = cb, period = ms\<rparr>),
        nextTimer := Suc (nextTimer s)\<rparr>)"

definition clearInterval :: "nat \<Rightarrow> state \<Rightarrow> state" where
  "clearInterval h s = s\<lparr>timers := (timers s)(h := None)\<rparr>"

definition logged :: "call \<Rightarrow> state \<Rightarrow> state" where
  "logged c s = s\<lparr>trace := trace s @ [c]\<rparr>"

section \<open>Single-protocol operations\<close>

text \<open>
  \<^verbatim>\<open>_upnpMap(opts)\<close>. A missing UPnP client makes the call inside \<^verbatim>\<open>try\<close> throw, which
  the \<^verbatim>\<open>catch\<close> turns into \<^verbatim>\<open>false\<close>.
\<close>

definition upnpMap :: "env \<Rightarrow> opts \<Rightarrow> state \<Rightarrow> (error + bool) \<times> state" where
  "upnpMap e rq s =
     (if destroyed s then (Inl (Error ''client is destroyed''), s)
      else if \<not> upnpClient s then (Inr False, s)
      else
        (let c = UpnpPortMapping (publicPort rq) (privatePort rq) (description rq)
                   (protocol rq) (ttl rq);
             s1 = logged c s
         in case upnp e (trace s) c of
              Rejected m \<Rightarrow> (Inr False, s1)
            | Resolved v \<Rightarrow>
                if autoUpdate s1 then
                  (let (h, s2) = setInterval (UpnpRenewal rq) (timeout s1) s1
                   in (Inr True,
                       s2\<lparr>upnpIntervals := (upnpIntervals s2)(interval_key rq \<mapsto> h)\<rparr>))
                else (Inr True, s1)))"

text \<open>
  \<^verbatim>\<open>_pmpMap(opts)\<close>. A closed socket is replaced by a fresh client first. The request is
  raced against the one-second timer; a rejection and a timeout both close the client
  and give \<^verbatim>\<open>false\<close>. (The one-second timer is never cancelled; its later firing
  after a request that won the race is outside this model.)
\<close>

definition pmpMap :: "env \<Rightarrow> opts \<Rightarrow> state \<Rightarrow> (error + bool) \<times> state" where
  "pmpMap e rq s =
     (if destroyed s then (Inl (Error ''client is destroyed''), s)
      else case pmpClient s of
        None \<Rightarrow> (Inl (TypeError ''Cannot read properties of null''), s)
      | Some cl0 \<Rightarrow>
        (let cl = (if socket cl0 then cl0 else NatPMP (pmp_gateway cl0));
             c = PmpPortMapping (publicPort rq) (privatePort rq) (protocol rq) (ttl rq);
             s1 = logged c (s\<lparr>pmpClient := Some cl\<rparr>)
         in case pmp e (trace s) c of
              Won (Resolved v) \<Rightarrow>
                if autoUpdate s1 then
                  (let (h, s2) = setInterval (PmpRenewal rq) (timeout s1) s1
                   in (Inr True,
                       s2\<lparr>pmpIntervals := (pmpIntervals s2)(interval_key rq \<mapsto> h)\<rparr>))
                else (Inr True, s1)
            | _ \<Rightarrow> (Inr False, s1\<lparr>pmpClient := Some (pmp_close cl)\<rparr>)))"

text \<open>\<^verbatim>\<open>_upnpUnmap(opts)\<close>: on success the interval stored under the key is cleared and
  deleted.\<close>

definition upnpUnmap :: "env \<Rightarrow> opts \<Rightarrow> state \<Rightarrow> (error + bool) \<times> state" where
  "upnpUnmap e rq s =
     (if destroyed s then (Inl (Error ''client is destroyed''), s)
      else if \<not> upnpClient s then (Inr False, s)
      else
        (let c = UpnpPortUnmapping (publicPort rq) (privatePort rq) (protocol rq);
             s1 = logged c s
         in case upnp e (trace s) c of
              Rejected m \<Rightarrow> (Inr False, s1)
            | Resolved v \<Rightarrow>
                (case upnpIntervals s1 (interval_key rq) of
                   None \<Rightarrow> (Inr True, s1)
                 | Some h \<Rightarrow>
                     (Inr True,
                      (clearInterval h s1)\<lparr>upnpIntervals :=
                         (upnpIntervals s1)(interval_key rq := None)\<rparr>))))"

definition pmpUnmap :: "env \<Rightarrow> opts \<Rightarrow> state \<Rightarrow> (error + bool) \<times> state" where
  "pmpUnmap e rq s =
     (if destroyed s then (Inl (Error ''client is destroyed''), s)
      else case pmpClient s of
        None \<Rightarrow> (Inl (TypeError ''Cannot read properties of null''), s)
      | Some cl0 \<Rightarrow>
        (let cl = (if socket cl0 then cl0 else NatPMP (pmp_gateway cl0));
             c = PmpPortUnmapping (publicPort rq) (privatePort rq) (protocol rq);
             s1 = logged c (s\<lparr>pmpClient := Some cl\<rparr>)
         in case pmp e (trace s) c of
              Won (Resolved v) \<Rightarrow>
                (case pmpIntervals s1 (interval_key rq) of
                   None \<Rightarrow> (Inr True, s1)
                 | Some h \<Rightarrow>
                     (Inr True,
                      (clearInterval h s1)\<lparr>pmpIntervals :=
                         (pmpIntervals s1)(interval_key rq := None)\<rparr>))
            | _ \<Rightarrow> (Inr False, s1\<lparr>pmpClient := Some (pmp_close cl)\<rparr>)))"

section \<open>The fallback chain\<close>

text \<open>
  \<^verbatim>\<open>_map(opts)\<close> and \<^verbatim>\<open>_unmap(opts)\<close> return the pair \<^verbatim>\<open>[success, error]\<close>: NAT-PMP first
  when a client exists, then UPnP when a client exists; an exception inside the
  \<^verbatim>\<open>try\<close> becomes \<^verbatim>\<open>[false, error]\<close>. Only the destroyed check throws.
\<close>

definition priv_map :: "env \<Rightarrow> opts \<Rightarrow> state \<Rightarrow> (error + bool \<times> error option) \<times> state" where
  "priv_map e rq s =
     (if destroyed s then (Inl (Error ''client is destroyed''), s)
      else
        (let (r1, s1) = (if pmpClient s \<noteq> None then pmpMap e rq s else (Inr False, s))
         in case r1 of
              Inl err \<Rightarrow> (Inr (False, Some err), s1)
            | Inr True \<Rightarrow> (Inr (True, None), s1)
            | Inr False \<Rightarrow>
                (let (r2, s2) = (if upnpClient s1 then upnpMap e rq s1 else (Inr False, s1))
                 in case r2 of
                      Inl err \<Rightarrow> (Inr (False, Some err), s2)
                    | Inr True \<Rightarrow> (Inr (True, None), s2)
                    | Inr False \<Rightarrow>
                        (Inr (False, Some (Error ''no protocols succeeded'')), s2))))"

definition priv_unmap :: "env \<Rightarrow> opts \<Rightarrow> state \<Rightarrow> (error + bool \<times> error option) \<times> state" where
  "priv_unmap e rq s =
     (if destroyed s then (Inl (Error ''client is destroyed''), s)
      else
        (let (r1, s1) = (if pmpClient s \<noteq> None then pmpUnmap e rq s else (Inr False, s))
         in case r1 of
              Inl err \<Rightarrow> (Inr (False, Some err), s1)
            | Inr True \<Rightarrow> (Inr (True, None), s1)
            | Inr False \<Rightarrow>
                (let (r2, s2) = (if upnpClient s1 then upnpUnmap e rq s1 else (Inr False, s1))
                 in case r2 of
                      Inl err \<Rightarrow> (Inr (False, Some err), s2)
                    | Inr True \<Rightarrow> (Inr (True, None), s2)
                    | Inr False \<Rightarrow>
                        (Inr (False, Some (Error ''no protocols succeeded'')), s2))))"

section \<open>The public operations\<close>

text \<open>\<^verbatim>\<open>const newOpts = { ...opts }; this._openPorts.push(newOpts)\<close>: a fresh object, whose
  identity is returned.\<close>

definition push :: "opts \<Rightarrow> state \<Rightarrow> nat \<times> state" where
  "push rq s =
     (nextRef s,
      s\<lparr>openPorts := openPorts s @ [(nextRef s, rq)], nextRef := Suc (nextRef s)\<rparr>)"

text \<open>\<^verbatim>\<open>this._openPorts.indexOf(newOpts)\<close> compares object identities.\<close>

definition indexOf :: "(nat \<times> opts) list \<Rightarrow> nat \<Rightarrow> int" where
  "indexOf arr r = findIndex (\<lambda>x. fst x = r) arr"

text \<open>The predicate handed to \<^verbatim>\<open>findIndex\<close> in \<^verbatim>\<open>unmap\<close> (and in the TCP rollback of
  \<^verbatim>\<open>map\<close>): equal ports, and an equal protocol or no protocol in the request.\<close>

definition matches :: "opts \<Rightarrow> nat \<times> opts \<Rightarrow> bool" where
  "matches rq x =
     (publicPort (snd x) = publicPort rq \<and> privatePort (snd x) = privatePort rq \<and>
      (protocol (snd x) = protocol rq \<or> protocol rq = Null \<or> protocol rq = Undefined))"

definition remove_at :: "int \<Rightarrow> state \<Rightarrow> state" where
  "remove_at i s = s\<lparr>openPorts := arrayRemove (openPorts s) i\<rparr>"

text \<open>\<^verbatim>\<open>map(publicPort, privatePort)\<close>.\<close>

definition NatAPI_map :: "env \<Rightarrow> arg \<Rightarrow> arg \<Rightarrow> state \<Rightarrow> (error + bool) \<times> state" where
  "NatAPI_map e a b s =
     (if destroyed s then (Inl (Error ''client is destroyed''), s)
      else case validateInput s a b of
        Inl err \<Rightarrow> (Inl err, s)
      | Inr rq \<Rightarrow>
        if truthy (protocol rq) then
          (let (newOpts, s1) = push rq s;
               (response, s2) = priv_map e rq s1
           in case response of
                Inl err \<Rightarrow> (Inl err, s2)
              | Inr (ok, err) \<Rightarrow>
                  if \<not> ok then (Inr False, remove_at (indexOf (openPorts s2) newOpts) s2)
                  else (Inr True, s2))
        else
          (let newOptsUDP = rq\<lparr>protocol := Str ''UDP''\<rparr>;
               (refUDP, s1) = push newOptsUDP s;
               (response, s2) = priv_map e newOptsUDP s1
           in case response of
                Inl err \<Rightarrow> (Inl err, s2)
              | Inr (ok, err) \<Rightarrow>
                  if \<not> ok then (Inr False, remove_at (indexOf (openPorts s2) refUDP) s2)
                  else
                    (let newOptsTCP = rq\<lparr>protocol := Str ''TCP''\<rparr>;
                         (refTCP, s3) = push newOptsTCP s2;
                         (response', s4) = priv_map e newOptsTCP s3
                     in case response' of
                          Inl err \<Rightarrow> (Inl err, s4)
                        | Inr (ok', err') \<Rightarrow>
                            if \<not> ok' then
                              (Inr False,
                               remove_at (findIndex (matches newOptsTCP) (openPorts s4)) s4)
                            else (Inr True, s4))))"

text \<open>\<^verbatim>\<open>unmap(publicPort, privatePort)\<close>.\<close>

definition NatAPI_unmap :: "env \<Rightarrow> arg \<Rightarrow> arg \<Rightarrow> state \<Rightarrow> (error + bool) \<times> state" where
  "NatAPI_unmap e a b s =
     (if destroyed s then (Inl (Error ''client is destroyed''), s)
      else case validateInput s a b of
        Inl err \<Rightarrow> (Inl err, s)
      | Inr rq \<Rightarrow>
        (let s0 = remove_at (findIndex (matches rq) (openPorts s)) s
         in if truthy (protocol rq) then
              (let (response, s1) = priv_unmap e rq s0
               in case response of
                    Inl err \<Rightarrow> (Inl err, s1)
                  | Inr (ok, err) \<Rightarrow> (Inr ok, s1))
            else
              (let (response, s1) = priv_unmap e (rq\<lparr>protocol := Str ''UDP''\<rparr>) s0
               in case response of
                    Inl err \<Rightarrow> (Inl err, s1)
                  | Inr (ok, err) \<Rightarrow>
                      if \<not> ok then (Inr False, s1)
                      else
                        (let (response', s2) = priv_unmap e (rq\<lparr>protocol := Str ''TCP''\<rparr>) s1
                         in case response' of
                              Inl err \<Rightarrow> (Inl err, s2)
                            | Inr (ok', err') \<Rightarrow>
                                if \<not> ok' then (Inr False, s2) else (Inr True, s2)))))"

text \<open>\<^verbatim>\<open>_pmpIp()\<close>, \<^verbatim>\<open>_upnpIp()\<close> and \<^verbatim>\<open>externalIp()\<close>. Every failure inside the \<^verbatim>\<open>try\<close>
  blocks ends in the empty string.\<close>

definition pmpIp :: "env \<Rightarrow> state \<Rightarrow> (error + string) \<times> state" where
  "pmpIp e s =
     (if destroyed s then (Inl (Error ''client is destroyed''), s)
      else case pmpClient s of
        None \<Rightarrow> (Inr [], s)
      | Some cl \<Rightarrow>
        (let s1 = logged PmpExternalIp s
         in case pmp e (trace s) PmpExternalIp of
              Won (Resolved ip) \<Rightarrow> (Inr ip, s1)
            | Won (Rejected m) \<Rightarrow> (Inr [], s1)
            | TimedOut \<Rightarrow> (Inr [], s1\<lparr>pmpClient := Some (pmp_close cl)\<rparr>)))"

definition upnpIp :: "env \<Rightarrow> state \<Rightarrow> (error + string) \<times> state" where
  "upnpIp e s =
     (if destroyed s then (Inl (Error ''client is destroyed''), s)
      else if \<not> upnpClient s then (Inr [], s)
      else
        (let s1 = logged UpnpExternalIp s
         in case upnp e (trace s) UpnpExternalIp of
              Resolved ip \<Rightarrow> (Inr ip, s1)
            | Rejected m \<Rightarrow> (Inr [], s1)))"

definition externalIp :: "env \<Rightarrow> state \<Rightarrow> (error + string) \<times> state" where
  "externalIp e s =
     (if destroyed s then (Inl (Error ''client is destroyed''), s)
      else
        (let (r1, s1) = (if pmpClient s \<noteq> None then pmpIp e s else (Inr [], s))
         in case r1 of
              Inl err \<Rightarrow> (Inr [], s1)
            | Inr ip \<Rightarrow>
                if ip \<noteq> [] then (Inr ip, s1)
                else
                  (let (r2, s2) = (if upnpClient s1 then upnpIp e s1 else (Inr [], s1))
                   in case r2 of
                        Inl err \<Rightarrow> (Inr [], s2)
                      | Inr ip' \<Rightarrow> (Inr ip', s2))))"

text \<open>
  \<^verbatim>\<open>destroy()\<close>: every entry of a snapshot of the registry is handed to \<^verbatim>\<open>unmap\<close> (an
  exception is logged and dropped), then the destroyed flag is set, then both clients
  are released. Each registry entry is already a normalised copy of a request, so the
  in-place normalisation that \<^verbatim>\<open>_validateInput\<close> performs on the object it is given is
  not written back.
\<close>

fun unmap_all :: "env \<Rightarrow> (nat \<times> opts) list \<Rightarrow> state \<Rightarrow> state" where
  "unmap_all e [] s = s"
| "unmap_all e (openPort # rest) s =
     unmap_all e rest (snd (NatAPI_unmap e (ArgObj (snd openPort)) ArgOther s))"

definition destroy :: "env \<Rightarrow> state \<Rightarrow> (error + bool) \<times> state" where
  "destroy e s =
     (if destroyed s then (Inl (Error ''client already destroyed''), s)
      else
        (let s1 = unmap_all e (openPorts s) s;
             s2 = s1\<lparr>destroyed := True\<rparr>
         in case (if pmpClient s2 \<noteq> None then closing e (trace s2) PmpClose else Resolved [])
            of Rejected m \<Rightarrow> (Inl (Error m), logged PmpClose s2)
             | Resolved v \<Rightarrow>
                 (let s3 = (if pmpClient s2 \<noteq> None then logged PmpClose s2 else s2)
                  in if upnpClient s3 then
                       (case closing e (trace s3) UpnpDestroy of
                          Rejected m \<Rightarrow> (Inl (Error m), logged UpnpDestroy s3)
                        | Resolved v' \<Rightarrow> (Inr True, logged UpnpDestroy s3))
                     else (Inr True, s3))))"

section \<open>Renewal timers\<close>

text \<open>
  What happens when the interval timer with handle \<open>h\<close> fires. The UPnP closure is
  \<^verbatim>\<open>() => this._upnpMap(opts)\<close>. The NAT-PMP closure is
  \<^verbatim>\<open>async () => { try { await this._pmpMap.bind(this, opts) } catch (err) {} }\<close>: it awaits
  the bound function itself, which is never called, so nothing happens.
\<close>

definition fire :: "env \<Rightarrow> nat \<Rightarrow> state \<Rightarrow> state" where
  "fire e h s =
     (case timers s h of
        None \<Rightarrow> s
      | Some t \<Rightarrow>
          (case callback t of
             PmpRenewal rq \<Rightarrow> s
           | UpnpRenewal rq \<Rightarrow> snd (upnpMap e rq s)))"

section \<open>The UPnP control point: documents and the platform\<close>

text \<open>
  \<^verbatim>\<open>Device\<close> (\<^verbatim>\<open>lib/upnp/device.js\<close>, in its \<^verbatim>\<open>async\<close> form) works on the trees that
  \<^verbatim>\<open>xml2js\<close> produces: an element with only text is a string, an element with
  children or attributes is an object, a repeated child is an array.
\<close>

datatype xml = XText string | XObj "(string \<times> xml) list" | XArr "xml list"

fun xml_truthy :: "xml \<Rightarrow> bool" where
  "xml_truthy (XText t) = (t \<noteq> [])"
| "xml_truthy (XObj kvs) = True"
| "xml_truthy (XArr xs) = True"

text \<open>Property access \<^verbatim>\<open>x.k\<close> on a defined value: \<open>None\<close> is \<^verbatim>\<open>undefined\<close>.\<close>

fun get :: "xml \<Rightarrow> string \<Rightarrow> xml option" where
  "get (XObj kvs) k = map_of kvs k"
| "get (XText t) k = None"
| "get (XArr xs) k = None"

text \<open>\<^verbatim>\<open>String(x)\<close>: a string is itself, an object prints as \<^verbatim>\<open>[object Object]\<close>, an array
  joins its elements with commas.\<close>

fun join :: "string list \<Rightarrow> string" where
  "join [] = []"
| "join [x] = x"
| "join (x # y # ys) = x @ '','' @ join (y # ys)"

fun xml_toString :: "xml \<Rightarrow> string" where
  "xml_toString (XText t) = t"
| "xml_toString (XObj kvs) = ''[object Object]''"
| "xml_toString (XArr xs) = join (map xml_toString xs)"

text \<open>An HTTP exchange. A POST is determined by the control URL, the action, the service
  type and the rendered argument elements (name and text), from which the envelope and
  the \<^verbatim>\<open>SOAPAction\<close> header are built.\<close>

record soap_request =
  req_action :: string
  req_service :: string
  req_args :: "(string \<times> string) list"

datatype request = Get string | Post string soap_request

record response =
  status :: nat
  text_of :: string

text \<open>
  What the platform provides: \<^verbatim>\<open>fetch\<close> (answering as a function of the requests made
  so far and of the request; \<open>Inl\<close> when the promise rejects), the \<^verbatim>\<open>xml2js\<close> parser,
  \<^verbatim>\<open>Number(...)\<close> on a string (\<open>None\<close> for anything that is not an integer), and the
  WHATWG \<^verbatim>\<open>URL\<close> class over some type \<open>'u\<close> of URL objects (\<open>None\<close> when the constructor
  throws).
\<close>

record 'u platform =
  fetch :: "request list \<Rightarrow> request \<Rightarrow> error + response"
  parseString :: "string \<Rightarrow> error + xml"
  js_Number :: "string \<Rightarrow> int option"
  url_new :: "string \<Rightarrow> 'u option"
  url_new_rel :: "string \<Rightarrow> string \<Rightarrow> 'u option"
  url_href :: "'u \<Rightarrow> string"
  url_host :: "'u \<Rightarrow> string"
  url_protocol :: "'u \<Rightarrow> string"
  url_set_host :: "'u \<Rightarrow> string \<Rightarrow> 'u"
  url_set_protocol :: "'u \<Rightarrow> string \<Rightarrow> 'u"
  url_toString :: "'u \<Rightarrow> string"

record device =
  dev_url :: string
  services :: "string list"

definition Device :: "string \<Rightarrow> device" where
  "Device u = \<lparr>dev_url = u,
     services = [''urn:schemas-upnp-org:service:WANIPConnection:1'',
                 ''urn:schemas-upnp-org:service:WANIPConnection:2'',
                 ''urn:schemas-upnp-org:service:WANPPPConnection:1'']\<rparr>"

section \<open>Service discovery\<close>

definition toArray :: "xml \<Rightarrow> xml list" where
  "toArray item = (case item of XArr xs \<Rightarrow> xs | _ \<Rightarrow> [item])"

text \<open>The elements of a nested list of the description: \<^verbatim>\<open>x.outer && x.outer.inner\<close>,
  made an array by \<^verbatim>\<open>toArray\<close>; no elements when either is missing or falsy.\<close>

definition child_list :: "xml \<Rightarrow> string \<Rightarrow> string \<Rightarrow> xml list" where
  "child_list x outer inner =
     (case get x outer of
        None \<Rightarrow> []
      | Some l \<Rightarrow>
          if \<not> xml_truthy l then []
          else (case get l inner of
                  None \<Rightarrow> []
                | Some c \<Rightarrow> if \<not> xml_truthy c then [] else toArray c))"

lemma size_get: "get x k = Some v \<Longrightarrow> size v < size x"
proof (cases x)
  case (XObj kvs)
  have "map_of kvs k = Some v \<Longrightarrow> size v < Suc (size_list (size_prod (\<lambda>_. 0) size) kvs)"
    by (induction kvs) (auto split: if_splits)
  then show "get x k = Some v \<Longrightarrow> size v < size x"
    using XObj by simp
qed simp_all

lemma size_toArray: "y \<in> set (toArray x) \<Longrightarrow> size y \<le> size x"
proof (cases x)
  case (XArr xs)
  have "y \<in> set xs \<Longrightarrow> size y \<le> size_list size xs"
    by (induction xs) auto
  then show "y \<in> set (toArray x) \<Longrightarrow> size y \<le> size x"
    using XArr by (simp add: toArray_def)
qed (simp_all add: toArray_def)

lemma size_child_list:
  assumes "y \<in> set (child_list x outer inner)"
  shows "size y < size x"
proof (cases "get x outer")
  case None
  with assms show ?thesis by (simp add: child_list_def)
next
  case (Some l)
  show ?thesis
  proof (cases "get l inner")
    case None
    with assms Some show ?thesis by (simp add: child_list_def split: if_splits)
  next
    case c: (Some c)
    with assms Some have "y \<in> set (toArray c)"
      by (simp add: child_list_def split: if_splits)
    then have "size y \<le> size c" by (rule size_toArray)
    moreover have "size c < size l" using c by (rule size_get)
    moreover have "size l < size x" using Some by (rule size_get)
    ultimately show ?thesis by simp
  qed
qed

text \<open>
  \<^verbatim>\<open>traverseDevices(device)\<close> inside \<^verbatim>\<open>_parseDescription\<close>, returning what it pushes on
  \<^verbatim>\<open>services\<close> and on \<^verbatim>\<open>devices\<close>: the device itself, then everything of its nested
  devices in order (depth first), then its own services.
\<close>

function traverseDevices :: "xml \<Rightarrow> xml list \<times> xml list" where
  "traverseDevices device =
     (if \<not> xml_truthy device then ([], [])
      else
        (let sub = map traverseDevices (child_list device ''deviceList'' ''device'');
             own = filter xml_truthy (child_list device ''serviceList'' ''service'')
         in (concat (map fst sub) @ own, device # concat (map snd sub))))"
  by pat_completeness auto
termination
  by (relation "measure size") (auto dest: size_child_list)

declare traverseDevices.simps [simp del]

definition parseDescription :: "xml \<Rightarrow> xml list \<times> xml list" where
  "parseDescription info =
     (case get info ''device'' of None \<Rightarrow> ([], []) | Some d \<Rightarrow> traverseDevices d)"

text \<open>\<^verbatim>\<open>_getXml(url)\<close>.\<close>

definition getXml ::
  "'u platform \<Rightarrow> request list \<Rightarrow> string \<Rightarrow> (error + xml) \<times> request list" where
  "getXml pf hist u =
     (let hist' = hist @ [Get u]
      in case fetch pf hist (Get u) of
           Inl err \<Rightarrow> (Inl err, hist')
         | Inr res \<Rightarrow>
             if status res \<noteq> 200
             then (Inl (Error (''Request failed: '' @ show_nat (status res))), hist')
             else (case parseString pf (text_of res) of
                     Inl err \<Rightarrow> (Inl err, hist')
                   | Inr doc \<Rightarrow> (Inr doc, hist')))"

text \<open>The filter of \<^verbatim>\<open>_getService\<close>: \<^verbatim>\<open>types.indexOf(service.serviceType) !== -1\<close>.\<close>

definition accepted :: "string list \<Rightarrow> xml \<Rightarrow> bool" where
  "accepted types sv =
     (case get sv ''serviceType'' of Some (XText t) \<Rightarrow> t \<in> set types | _ \<Rightarrow> False)"

text \<open>\<^verbatim>\<open>!x.k\<close>: the property is missing or falsy.\<close>

definition lacks :: "xml \<Rightarrow> string \<Rightarrow> bool" where
  "lacks x k = (case get x k of None \<Rightarrow> True | Some v \<Rightarrow> \<not> xml_truthy v)"

text \<open>String of a property that is known to be there.\<close>

definition prop_string :: "xml \<Rightarrow> string \<Rightarrow> string" where
  "prop_string x k = (case get x k of None \<Rightarrow> ''undefined'' | Some v \<Rightarrow> xml_toString v)"

definition addPrefix :: "'u platform \<Rightarrow> 'u \<Rightarrow> string \<Rightarrow> error + string" where
  "addPrefix pf base u =
     (case (case url_new pf u of
              Some uri \<Rightarrow> Some uri
            | None \<Rightarrow> url_new_rel pf u (url_href pf base)) of
        None \<Rightarrow> Inl (TypeError ''Invalid URL'')
      | Some uri \<Rightarrow>
          (let uri1 = url_set_host pf uri
                 (if url_host pf uri \<noteq> [] then url_host pf uri else url_host pf base);
               uri2 = url_set_protocol pf uri1
                 (if url_protocol pf uri1 \<noteq> [] then url_protocol pf uri1
                  else url_protocol pf base)
           in Inr (url_toString pf uri2)))"

record service_info =
  service :: string
  SCPDURL :: string
  controlURL :: string

text \<open>\<^verbatim>\<open>_getService(types)\<close>.\<close>

definition getService ::
  "'u platform \<Rightarrow> device \<Rightarrow> request list \<Rightarrow> string list \<Rightarrow>
     (error + service_info) \<times> request list" where
  "getService pf this hist types =
     (case getXml pf hist (dev_url this) of
        (Inl err, hist') \<Rightarrow> (Inl err, hist')
      | (Inr info, hist') \<Rightarrow>
          (case filter (accepted types) (fst (parseDescription info)) of
             [] \<Rightarrow> (Inl (Error ''Service not found''), hist')
           | s0 # others \<Rightarrow>
               if lacks s0 ''controlURL'' \<or> lacks s0 ''SCPDURL''
               then (Inl (Error ''Service not found''), hist')
               else
                 (case url_new pf
                         (if lacks info ''baseURL'' then dev_url this
                          else prop_string info ''baseURL'') of
                    None \<Rightarrow> (Inl (TypeError ''Invalid URL''), hist')
                  | Some base \<Rightarrow>
                      (case addPrefix pf base (prop_string s0 ''SCPDURL'') of
                         Inl err \<Rightarrow> (Inl err, hist')
                       | Inr scpd \<Rightarrow>
                           (case addPrefix pf base (prop_string s0 ''controlURL'') of
                              Inl err \<Rightarrow> (Inl err, hist')
                            | Inr ctl \<Rightarrow>
                                (Inr \<lparr>service = prop_string s0 ''serviceType'',
                                       SCPDURL = scpd, controlURL = ctl\<rparr>, hist'))))))"

section \<open>Running a SOAP action\<close>

text \<open>An argument pair \<^verbatim>\<open>[name, value]\<close> becomes the element \<^verbatim>\<open><name>value</name>\<close>, with
  the empty string for a falsy value (\<^verbatim>\<open>args[1] ? args[1] : ''\<close>).\<close>

definition render_arg :: "string \<times> js_val \<Rightarrow> string \<times> string" where
  "render_arg a = (fst a, if truthy (snd a) then js_toString (snd a) else [])"

text \<open>\<^verbatim>\<open>_getNamespace(data, uri)\<close>: the prefix bound to \<open>uri\<close> by the first matching
  \<^verbatim>\<open>xmlns:\<close> attribute, followed by a colon; the empty string when there is none (or
  when the prefix found is empty).\<close>

fun first_ns :: "(string \<times> xml) list \<Rightarrow> string \<Rightarrow> string" where
  "first_ns [] uri = []"
| "first_ns ((k, v) # kvs) uri =
     (if take 6 k = ''xmlns:'' \<and> v = XText uri then drop 6 k else first_ns kvs uri)"

definition getNamespace :: "xml \<Rightarrow> string \<Rightarrow> string" where
  "getNamespace data uri =
     (let ns = (case get data ''@'' of Some (XObj attrs) \<Rightarrow> first_ns attrs uri | _ \<Rightarrow> [])
      in if ns \<noteq> [] then ns @ '':'' else [])"

text \<open>The fault table of \<^verbatim>\<open>run\<close>: the message thrown for an IGD error code, \<open>None\<close> for
  725 (handled by resubmission) and for a code outside the table.\<close>

definition fault_message :: "int \<Rightarrow> string option" where
  "fault_message code =
     (if code = 606 then Some ''The action requested REQUIRES authorization and the sender was not authorized.''
      else if code = 714 then Some ''The specified value does not exist in the array.''
      else if code = 715 then Some ''The source IP address cannot be wild-carded.''
      else if code = 716 then Some ''The external port cannot be wild-carded.''
      else if code = 718 then Some ''The port mapping entry specified conflicts with a mapping assigned previously to another client.''
      else if code = 724 then Some ''Internal and External port values MUST be the same.''
      else if code = 726 then Some ''RemoteHost must be a wildcard and cannot be a specific IP address or DNS name.''
      else if code = 727 then Some ''ExternalPort MUST be a wildcard and cannot be a specific port value.''
      else if code = 728 then Some ''There are not enough free ports available to complete port mapping.''
      else if code = 729 then Some ''Attempted port mapping is not allowed due to conflict with other mechanisms''
      else if code = 732 then Some ''The internal port cannot be wild-carded.''
      else None)"

text \<open>How one pass through the body of \<^verbatim>\<open>run\<close> ends: it returns a value, throws, or
  reaches the recursive call \<^verbatim>\<open>this.run(action, args)\<close> with the updated arguments.\<close>

datatype step = Return "xml option" | Throw error | Resubmit "(string \<times> js_val) list"

text \<open>The branch \<^verbatim>\<open>res.status === 500\<close>.\<close>

definition on_fault :: "'u platform \<Rightarrow> xml \<Rightarrow> (string \<times> js_val) list \<Rightarrow> step" where
  "on_fault pf body args =
     (case get body ''s:Body'' of
        None \<Rightarrow> Throw (TypeError ''Cannot read properties of undefined'')
      | Some sbody \<Rightarrow>
      (case get sbody ''s:Fault'' of
        None \<Rightarrow> Throw (TypeError ''Cannot read properties of undefined'')
      | Some fault \<Rightarrow>
      (case (if lacks fault ''faultString'' then get fault ''faultstring''
             else get fault ''faultString'') of
        Some (XText faultString) \<Rightarrow>
          if toLowerCase faultString = ''upnperror'' then
            (case get fault ''detail'' of
               None \<Rightarrow> Throw (TypeError ''Cannot read properties of undefined'')
             | Some detail \<Rightarrow>
             (case get detail ''UPnPError'' of
               None \<Rightarrow> Throw (TypeError ''Cannot read properties of undefined'')
             | Some upnpError \<Rightarrow>
               (let errorCode =
                      (case get upnpError ''errorCode'' of
                         None \<Rightarrow> None
                       | Some (XObj kvs) \<Rightarrow> None
                       | Some v \<Rightarrow> js_Number pf (xml_toString v))
                in if errorCode = Some 725
                   then Resubmit (args[length args - 1 := (''NewLeaseDuration'', Num 0)])
                   else (case (case errorCode of None \<Rightarrow> None | Some c \<Rightarrow> fault_message c) of
                           Some msg \<Rightarrow> Throw (Error msg)
                         | None \<Rightarrow>
                             Throw (Error (''Request failed, status code: 500, fault string ''
                                           @ faultString))))))
          else Throw (Error (''Request failed, status code: 500, fault string '' @ faultString))
      | _ \<Rightarrow> Throw (TypeError ''faultString.toLowerCase is not a function''))))"

text \<open>One pass through the body of \<^verbatim>\<open>run(action, args)\<close>, with the requests made.\<close>

definition run_body ::
  "'u platform \<Rightarrow> device \<Rightarrow> request list \<Rightarrow> string \<Rightarrow> (string \<times> js_val) list \<Rightarrow>
     step \<times> request list" where
  "run_body pf this hist action args =
     (case getService pf this hist (services this) of
        (Inl err, hist1) \<Rightarrow> (Throw err, hist1)
      | (Inr info, hist1) \<Rightarrow>
          (let rq = Post (controlURL info)
                      \<lparr>req_action = action, req_service = service info,
                       req_args = map render_arg args\<rparr>;
               hist2 = hist1 @ [rq]
           in case fetch pf hist1 rq of
                Inl err \<Rightarrow> (Throw err, hist2)
              | Inr res \<Rightarrow>
                  (case parseString pf (text_of res) of
                     Inl err \<Rightarrow> (Throw err, hist2)
                   | Inr body \<Rightarrow>
                       if status res = 500 then (on_fault pf body args, hist2)
                       else if status res \<noteq> 200
                       then (Throw (Error (''Request failed: '' @ show_nat (status res))), hist2)
                       else (Return (get body
                               (getNamespace body ''http://schemas.xmlsoap.org/soap/envelope/''
                                @ ''Body'')), hist2))))"

text \<open>
  \<^verbatim>\<open>run(action, args)\<close>. The recursive call is not bounded by anything in the code, so
  the function is partial: \<open>None\<close> means that the call never returns. The result carries
  every request made, in order.
\<close>

partial_function (option) run ::
  "'u platform \<Rightarrow> device \<Rightarrow> request list \<Rightarrow> string \<Rightarrow> (string \<times> js_val) list \<Rightarrow>
     ((error + xml option) \<times> request list) option" where
  "run pf this hist action args =
     (case run_body pf this hist action args of
        (Return v, hist') \<Rightarrow> Some (Inr v, hist')
      | (Throw err, hist') \<Rightarrow> Some (Inl err, hist')
      | (Resubmit args', hist') \<Rightarrow> run pf this hist' action args')"

declare run.simps [code]

section \<open>Object identities in the registry\<close>

text \<open>Every entry of the registry was pushed as a fresh object, so its identity is below
  the next unused one.\<close>

definition refs_fresh :: "state \<Rightarrow> bool" where
  "refs_fresh s = (\<forall>x\<in>set (openPorts s). fst x < nextRef s)"

section \<open>Example clients and environments\<close>

text \<open>Clients as the constructor builds them: \<open>upnp_client\<close> is
  \<^verbatim>\<open>new NatAPI({ enablePMP: false })\<close>; \<open>dual_client\<close> is \<^verbatim>\<open>new NatAPI()\<close> on a host whose
  default gateway is 192.168.1.1.\<close>

definition no_opts :: ctor_opts where
  "no_opts = \<lparr>c_ttl = None, c_description = None, c_gateway = None, c_autoUpdate = None,
     c_upnpPermanentFallback = None, c_enablePMP = None, c_enableUPNP = None\<rparr>"

definition upnp_client :: state where
  "upnp_client = NatAPI None (no_opts\<lparr>c_enablePMP := Some False\<rparr>)"

definition dual_client :: state where
  "dual_client = NatAPI (Some (Some ''192.168.1.1'')) no_opts"

text \<open>A gateway that grants everything, one that is down, one whose UPnP service refuses
  to remove UDP mappings only, and one that never answers NAT-PMP but serves UPnP.\<close>

definition env_ok :: env where
  "env_ok = \<lparr>pmp = (\<lambda>tr c. Won (Resolved ''203.0.113.7'')),
             upnp = (\<lambda>tr c. Resolved ''203.0.113.7''),
             closing = (\<lambda>tr c. Resolved [])\<rparr>"

definition env_down :: env where
  "env_down = \<lparr>pmp = (\<lambda>tr c. TimedOut),
               upnp = (\<lambda>tr c. Rejected ''Request failed: 500''),
               closing = (\<lambda>tr c. Resolved [])\<rparr>"

definition env_udp_down :: env where
  "env_udp_down = \<lparr>pmp = (\<lambda>tr c. TimedOut),
     upnp = (\<lambda>tr c. case c of
               UpnpPortUnmapping pub priv proto \<Rightarrow>
                 if proto = Str ''UDP'' then Rejected ''Request failed: 500''
                 else Resolved []
             | _ \<Rightarrow> Resolved []),
     closing = (\<lambda>tr c. Resolved [])\<rparr>"

definition env_pmp_silent :: env where
  "env_pmp_silent = \<lparr>pmp = (\<lambda>tr c. TimedOut),
                     upnp = (\<lambda>tr c. Resolved ''203.0.113.7''),
                     closing = (\<lambda>tr c. Resolved [])\<rparr>"

text \<open>A gateway that serves both protocols and reports a different external address
  over each, so that the answers can be told apart.\<close>

definition env_two_addresses :: env where
  "env_two_addresses = \<lparr>pmp = (\<lambda>tr c. Won (Resolved ''198.51.100.1'')),
                        upnp = (\<lambda>tr c. Resolved ''203.0.113.7''),
                        closing = (\<lambda>tr c. Resolved [])\<rparr>"

text \<open>The request \<^verbatim>\<open>{ publicPort: p, privatePort: q, protocol: proto }\<close>.\<close>

definition request_for :: "int \<Rightarrow> int \<Rightarrow> js_val \<Rightarrow> opts" where
  "request_for p q proto =
     empty_opts\<lparr>publicPort := Some p, privatePort := Some q, protocol := proto\<rparr>"

section \<open>Counting resubmissions\<close>

text \<open>The number of SOAP requests among the requests made.\<close>

fun posts :: "request list \<Rightarrow> nat" where
  "posts [] = 0"
| "posts (Get u # rs) = posts rs"
| "posts (Post u sr # rs) = Suc (posts rs)"

text \<open>
  What \<^verbatim>\<open>run\<close> takes for fault 725 in a parsed response: a fault found under the
  element names \<^verbatim>\<open>s:Body\<close> and \<^verbatim>\<open>s:Fault\<close>, spelled so, whose fault string is
  \<^verbatim>\<open>UPnPError\<close> in some casing and whose \<^verbatim>\<open>detail.UPnPError.errorCode\<close> is the number
  725.
\<close>

definition upnp_error_725 :: "'u platform \<Rightarrow> xml \<Rightarrow> bool" where
  "upnp_error_725 pf body =
     (case get body ''s:Body'' of
        None \<Rightarrow> False
      | Some sbody \<Rightarrow>
      (case get sbody ''s:Fault'' of
        None \<Rightarrow> False
      | Some fault \<Rightarrow>
      (case (if lacks fault ''faultString'' then get fault ''faultstring''
             else get fault ''faultString'') of
        Some (XText faultString) \<Rightarrow>
          toLowerCase faultString = ''upnperror'' \<and>
          (case get fault ''detail'' of
             None \<Rightarrow> False
           | Some detail \<Rightarrow>
           (case get detail ''UPnPError'' of
             None \<Rightarrow> False
           | Some upnpError \<Rightarrow>
             (case get upnpError ''errorCode'' of
                None \<Rightarrow> False
              | Some (XObj kvs) \<Rightarrow> False
              | Some v \<Rightarrow> js_Number pf (xml_toString v) = Some 725)))
      | _ \<Rightarrow> False)))"

text \<open>
  The SOAP request of a pass of \<^verbatim>\<open>run(action, args)\<close> that starts after the requests
  \<open>hist\<close> is answered with fault 725: the service is resolved, the request is answered
  with status 500, and the answer parses to such a fault.
\<close>

definition answers_725 ::
  "'u platform \<Rightarrow> device \<Rightarrow> request list \<Rightarrow> string \<Rightarrow> (string \<times> js_val) list \<Rightarrow> bool" where
  "answers_725 pf this hist action args =
     (case getService pf this hist (services this) of
        (Inl err, hist1) \<Rightarrow> False
      | (Inr info, hist1) \<Rightarrow>
          (case fetch pf hist1
                  (Post (controlURL info)
                     \<lparr>req_action = action, req_service = service info,
                      req_args = map render_arg args\<rparr>) of
             Inl err \<Rightarrow> False
           | Inr res \<Rightarrow>
               status res = 500 \<and>
               (case parseString pf (text_of res) of
                  Inl err \<Rightarrow> False
                | Inr body \<Rightarrow> upnp_error_725 pf body)))"


section \<open>Example gateways\<close>

text \<open>
  A gateway at 192.168.1.1:5000 as seen through the platform: every GET is answered
  with the description document \<open>doc\<close>, the \<open>n\<close>-th SOAP request (counting from 0)
  with \<open>replies n\<close>. Response texts are the names of four documents: the description,
  a SOAP fault with UPnP error 725 under the prefix \<^verbatim>\<open>s\<close>, the same fault under the
  prefix \<^verbatim>\<open>SOAP-ENV\<close>, and a successful response. URLs are kept as strings.
\<close>

definition soap_ns :: string where
  "soap_ns = ''http://schemas.xmlsoap.org/soap/envelope/''"

definition fault_725 :: xml where
  "fault_725 =
     XObj [(''@'', XObj [(''xmlns:s'', XText soap_ns)]),
           (''s:Body'', XObj [(''s:Fault'',
              XObj [(''faultcode'', XText ''s:Client''),
                    (''faultstring'', XText ''UPnPError''),
                    (''detail'', XObj [(''UPnPError'',
                       XObj [(''errorCode'', XText ''725''),
                             (''errorDescription'',
                              XText ''OnlyPermanentLeasesSupported'')])])])])]"

text \<open>The same fault as a gateway sends it that binds the envelope namespace to the
  prefix \<^verbatim>\<open>SOAP-ENV\<close>.\<close>

definition fault_725_soap_env :: xml where
  "fault_725_soap_env =
     XObj [(''@'', XObj [(''xmlns:SOAP-ENV'', XText soap_ns)]),
           (''SOAP-ENV:Body'', XObj [(''SOAP-ENV:Fault'',
              XObj [(''faultcode'', XText ''SOAP-ENV:Client''),
                    (''faultstring'', XText ''UPnPError''),
                    (''detail'', XObj [(''UPnPError'',
                       XObj [(''errorCode'', XText ''725''),
                             (''errorDescription'',
                              XText ''OnlyPermanentLeasesSupported'')])])])])]"

definition mapping_response :: xml where
  "mapping_response =
     XObj [(''@'', XObj [(''xmlns:s'', XText soap_ns)]),
           (''s:Body'', XObj [(''u:AddPortMappingResponse'', XText [])])]"

definition router :: "xml \<Rightarrow> (nat \<Rightarrow> response) \<Rightarrow> string platform" where
  "router doc replies =
     \<lparr>fetch = (\<lambda>hist rq. case rq of
                  Get u \<Rightarrow> Inr \<lparr>status = 200, text_of = ''description''\<rparr>
                | Post u sr \<Rightarrow> Inr (replies (posts hist))),
      parseString = (\<lambda>t. if t = ''description'' then Inr doc
                          else if t = ''fault725'' then Inr fault_725
                          else if t = ''fault725env'' then Inr fault_725_soap_env
                          else if t = ''response'' then Inr mapping_response
                          else Inl (Error ''Non-whitespace before first tag.'')),
      js_Number = (\<lambda>t. if t = ''725'' then Some 725 else None),
      url_new = (\<lambda>u. if take 7 u = ''http://'' then Some u else None),
      url_new_rel = (\<lambda>u b. Some (b @ u)),
      url_href = (\<lambda>u. u),
      url_host = (\<lambda>u. ''192.168.1.1:5000''),
      url_protocol = (\<lambda>u. ''http:''),
      url_set_host = (\<lambda>u h. u),
      url_set_protocol = (\<lambda>u p. u),
      url_toString = (\<lambda>u. u)\<rparr>"

definition igd :: device where
  "igd = Device ''http://192.168.1.1:5000/rootDesc.xml''"

definition service_node :: "string \<Rightarrow> (string \<times> xml) list \<Rightarrow> xml" where
  "service_node t urls = XObj ((''serviceType'', XText (''urn:schemas-upnp-org:service:'' @ t)) # urls)"

text \<open>An Internet Gateway Device description: the root device with one service and a
  nested WAN device, which has one service and a nested WAN connection device offering
  the connection services \<open>conn\<close>.\<close>

definition description_with :: "xml \<Rightarrow> xml" where
  "description_with conn =
     XObj [(''baseURL'', XText ''http://192.168.1.1:5000''),
           (''device'',
            XObj [(''deviceType'', XText ''urn:schemas-upnp-org:device:InternetGatewayDevice:1''),
                  (''serviceList'', XObj [(''service'',
                     service_node ''Layer3Forwarding:1''
                       [(''controlURL'', XText ''/ctl/L3F''), (''SCPDURL'', XText ''/L3F.xml'')])]),
                  (''deviceList'', XObj [(''device'',
                     XObj [(''deviceType'', XText ''urn:schemas-upnp-org:device:WANDevice:1''),
                           (''serviceList'', XObj [(''service'',
                              service_node ''WANCommonInterfaceConfig:1''
                                [(''controlURL'', XText ''/ctl/CmnIfCfg''),
                                 (''SCPDURL'', XText ''/WANCfg.xml'')])]),
                           (''deviceList'', XObj [(''device'',
                              XObj [(''deviceType'',
                                     XText ''urn:schemas-upnp-org:device:WANConnectionDevice:1''),
                                    (''serviceList'', XObj [(''service'', conn)])])])])])])]"

text \<open>Three gateways: one listing a PPP connection service before the IP connection
  service, one whose first connection service has no control URL while the second is
  complete, and one with the IP connection service only.\<close>

definition ppp_then_ip :: xml where
  "ppp_then_ip = description_with (XArr
     [service_node ''WANPPPConnection:1''
        [(''controlURL'', XText ''/ctl/PPPConn''), (''SCPDURL'', XText ''/WANPPPCn.xml'')],
      service_node ''WANIPConnection:1''
        [(''controlURL'', XText ''/ctl/IPConn''), (''SCPDURL'', XText ''/WANIPCn.xml'')]])"

definition incomplete_then_complete :: xml where
  "incomplete_then_complete = description_with (XArr
     [service_node ''WANIPConnection:1'' [(''SCPDURL'', XText ''/WANIPCn.xml'')],
      service_node ''WANIPConnection:2''
        [(''controlURL'', XText ''/ctl/IPConn2''), (''SCPDURL'', XText ''/WANIPCn2.xml'')]])"

definition ip_only :: xml where
  "ip_only = description_with
     (service_node ''WANIPConnection:1''
        [(''controlURL'', XText ''/ctl/IPConn''), (''SCPDURL'', XText ''/WANIPCn.xml'')])"

text \<open>Reply sequences: a fault 725 to the first \<open>k\<close> SOAP requests and success after
  that, a fault 725 to every request, and the fault under the other prefix to every
  request.\<close>

definition faults_then_ok :: "nat \<Rightarrow> nat \<Rightarrow> response" where
  "faults_then_ok k n =
     (if n < k then \<lparr>status = 500, text_of = ''fault725''\<rparr>
      else \<lparr>status = 200, text_of = ''response''\<rparr>)"

definition always_725 :: "nat \<Rightarrow> response" where
  "always_725 n = \<lparr>status = 500, text_of = ''fault725''\<rparr>"

definition always_725_soap_env :: "nat \<Rightarrow> response" where
  "always_725_soap_env n = \<lparr>status = 500, text_of = ''fault725env''\<rparr>"

text \<open>The arguments of an \<^verbatim>\<open>AddPortMapping\<close> action for port 6690 over TCP with a lease
  of 7200 seconds, and the same after the lease has been replaced.\<close>

definition add_mapping_args :: "js_val \<Rightarrow> (string \<times> js_val) list" where
  "add_mapping_args lease =
     [(''NewRemoteHost'', Str []), (''NewExternalPort'', Num 6690),
      (''NewProtocol'', Str ''TCP''), (''NewInternalPort'', Num 6690),
      (''NewInternalClient'', Str ''192.168.1.50''), (''NewEnabled'', Num 1),
      (''NewPortMappingDescription'', Str ''NatAPI''), (''NewLeaseDuration'', lease)]"

text \<open>The SOAP request that \<^verbatim>\<open>run\<close> posts for these arguments to the control URL of the
  IP connection service, with the given text in the lease element.\<close>

definition add_mapping_post :: "string \<Rightarrow> request" where
  "add_mapping_post lease =
     Post ''http://192.168.1.1:5000/ctl/IPConn''
       \<lparr>req_action = ''AddPortMapping'',
        req_service = ''urn:schemas-upnp-org:service:WANIPConnection:1'',
        req_args =
          [(''NewRemoteHost'', []), (''NewExternalPort'', ''6690''),
           (''NewProtocol'', ''TCP''), (''NewInternalPort'', ''6690''),
           (''NewInternalClient'', ''192.168.1.50''), (''NewEnabled'', ''1''),
           (''NewPortMappingDescription'', ''NatAPI''), (''NewLeaseDuration'', lease)]\<rparr>"

definition root_desc :: request where
  "root_desc = Get ''http://192.168.1.1:5000/rootDesc.xml''"

section \<open>Evaluation rules\<close>

lemmas client_defs = upnp_client_def dual_client_def NatAPI_def no_opts_def NatPMP_def

lemmas env_defs = env_ok_def env_down_def env_udp_down_def env_pmp_silent_def
  env_two_addresses_def

lemmas op_defs = NatAPI_map_def NatAPI_unmap_def externalIp_def destroy_def validateInput_def
  fill_defaults_def empty_opts_def request_for_def push_def priv_map_def priv_unmap_def
  upnpMap_def upnpUnmap_def pmpMap_def pmpUnmap_def pmpIp_def upnpIp_def pmp_close_def
  logged_def setInterval_def clearInterval_def interval_key_def remove_at_def indexOf_def
  matches_def arrayRemove_def show_port_def Let_def

lemma valid_protocol_strings:
  "valid_protocol_string ''tcp''" "valid_protocol_string ''TCP''"
  "valid_protocol_string ''UDP''" "valid_protocol_string ''udp''"
  by code_simp+

section \<open>Lifecycle\<close>

lemma destroy_sets_flag: "destroyed (snd (destroy e s))"
  by (simp add: destroy_def logged_def Let_def split: outcome.splits)

lemma destroyed_fails_fast:
  assumes "destroyed s"
  shows "NatAPI_map e a b s = (Inl (Error ''client is destroyed''), s)"
    and "NatAPI_unmap e a b s = (Inl (Error ''client is destroyed''), s)"
    and "externalIp e s = (Inl (Error ''client is destroyed''), s)"
  using assms by (simp_all add: NatAPI_map_def NatAPI_unmap_def externalIp_def)

text \<open>
  Claim C7. Once \<^verbatim>\<open>destroy()\<close> has completed, every call of \<^verbatim>\<open>map\<close>, \<^verbatim>\<open>unmap\<close> and
  \<^verbatim>\<open>externalIp\<close>, with any arguments and against any environment, throws
  \<^verbatim>\<open>client is destroyed\<close> and leaves the client as it was: nothing is validated, no
  protocol call is logged.
\<close>

theorem destroyed_client_rejects_every_call:
  assumes "destroy e s = (Inr r, s')"
  shows "NatAPI_map e' a b s' = (Inl (Error ''client is destroyed''), s') \<and>
         NatAPI_unmap e' a b s' = (Inl (Error ''client is destroyed''), s') \<and>
         externalIp e' s' = (Inl (Error ''client is destroyed''), s')"
proof -
  have "destroyed (snd (destroy e s))" by (rule destroy_sets_flag)
  with assms have "destroyed s'" by simp
  then show ?thesis by (simp add: destroyed_fails_fast)
qed

lemma destroy_upnp_client: "fst (destroy env_ok upnp_client) = Inr True"
  by (simp add: op_defs client_defs env_defs)

theorem destroyed_client_rejects_every_call_witness:
  "NatAPI_map env_ok (ArgNum 1000) ArgOther (snd (destroy env_ok upnp_client)) =
     (Inl (Error ''client is destroyed''), snd (destroy env_ok upnp_client)) \<and>
   NatAPI_unmap env_ok (ArgNum 1000) ArgOther (snd (destroy env_ok upnp_client)) =
     (Inl (Error ''client is destroyed''), snd (destroy env_ok upnp_client)) \<and>
   externalIp env_ok (snd (destroy env_ok upnp_client)) =
     (Inl (Error ''client is destroyed''), snd (destroy env_ok upnp_client))"
proof -
  have "destroy env_ok upnp_client = (Inr True, snd (destroy env_ok upnp_client))"
    using destroy_upnp_client by (metis prod.collapse)
  then show ?thesis by (rule destroyed_client_rejects_every_call)
qed

section \<open>Registry bookkeeping\<close>

text \<open>The protocol attempts never touch the registry, the identity counter or the
  destroyed flag, and on a live client they always return their pair.\<close>

lemma upnpMap_registry:
  "openPorts (snd (upnpMap e rq s)) = openPorts s \<and> nextRef (snd (upnpMap e rq s)) = nextRef s
   \<and> destroyed (snd (upnpMap e rq s)) = destroyed s"
  by (simp add: upnpMap_def logged_def setInterval_def Let_def split: outcome.splits)

lemma pmpMap_registry:
  "openPorts (snd (pmpMap e rq s)) = openPorts s \<and> nextRef (snd (pmpMap e rq s)) = nextRef s
   \<and> destroyed (snd (pmpMap e rq s)) = destroyed s"
  by (simp add: pmpMap_def logged_def setInterval_def Let_def
      split: option.splits raced.splits outcome.splits)

lemma upnpUnmap_registry:
  "openPorts (snd (upnpUnmap e rq s)) = openPorts s \<and> nextRef (snd (upnpUnmap e rq s)) = nextRef s
   \<and> destroyed (snd (upnpUnmap e rq s)) = destroyed s"
  by (simp add: upnpUnmap_def logged_def clearInterval_def Let_def
      split: outcome.splits option.splits)

lemma pmpUnmap_registry:
  "openPorts (snd (pmpUnmap e rq s)) = openPorts s \<and> nextRef (snd (pmpUnmap e rq s)) = nextRef s
   \<and> destroyed (snd (pmpUnmap e rq s)) = destroyed s"
  by (simp add: pmpUnmap_def logged_def clearInterval_def Let_def
      split: option.splits raced.splits outcome.splits)

lemma priv_map_registry:
  "openPorts (snd (priv_map e rq s)) = openPorts s \<and> nextRef (snd (priv_map e rq s)) = nextRef s
   \<and> destroyed (snd (priv_map e rq s)) = destroyed s"
proof -
  obtain r1 s1 where p: "pmpMap e rq s = (r1, s1)" by (cases "pmpMap e rq s")
  obtain r2 s2 where u: "upnpMap e rq s1 = (r2, s2)" by (cases "upnpMap e rq s1")
  obtain r3 s3 where u': "upnpMap e rq s = (r3, s3)" by (cases "upnpMap e rq s")
  from p pmpMap_registry [of e rq s] have 1: "openPorts s1 = openPorts s" "nextRef s1 = nextRef s"
    "destroyed s1 = destroyed s" by simp_all
  from u upnpMap_registry [of e rq s1] have 2: "openPorts s2 = openPorts s1" "nextRef s2 = nextRef s1"
    "destroyed s2 = destroyed s1" by simp_all
  from u' upnpMap_registry [of e rq s] have 3: "openPorts s3 = openPorts s" "nextRef s3 = nextRef s"
    "destroyed s3 = destroyed s" by simp_all
  show ?thesis
    by (simp add: priv_map_def p u u' 1 2 3 split: sum.splits bool.splits)
qed

lemma priv_unmap_registry:
  "openPorts (snd (priv_unmap e rq s)) = openPorts s \<and> nextRef (snd (priv_unmap e rq s)) = nextRef s
   \<and> destroyed (snd (priv_unmap e rq s)) = destroyed s"
proof -
  obtain r1 s1 where p: "pmpUnmap e rq s = (r1, s1)" by (cases "pmpUnmap e rq s")
  obtain r2 s2 where u: "upnpUnmap e rq s1 = (r2, s2)" by (cases "upnpUnmap e rq s1")
  obtain r3 s3 where u': "upnpUnmap e rq s = (r3, s3)" by (cases "upnpUnmap e rq s")
  from p pmpUnmap_registry [of e rq s] have 1: "openPorts s1 = openPorts s" "nextRef s1 = nextRef s"
    "destroyed s1 = destroyed s" by simp_all
  from u upnpUnmap_registry [of e rq s1] have 2: "openPorts s2 = openPorts s1" "nextRef s2 = nextRef s1"
    "destroyed s2 = destroyed s1" by simp_all
  from u' upnpUnmap_registry [of e rq s] have 3: "openPorts s3 = openPorts s" "nextRef s3 = nextRef s"
    "destroyed s3 = destroyed s" by simp_all
  show ?thesis
    by (simp add: priv_unmap_def p u u' 1 2 3 split: sum.splits bool.splits)
qed

lemma priv_map_returns:
  "\<not> destroyed s \<Longrightarrow> \<exists>ok err. fst (priv_map e rq s) = Inr (ok, err)"
  by (auto simp: priv_map_def split: prod.splits sum.splits bool.splits)

lemma priv_unmap_returns:
  "\<not> destroyed s \<Longrightarrow> \<exists>ok err. fst (priv_unmap e rq s) = Inr (ok, err)"
  by (auto simp: priv_unmap_def split: prod.splits sum.splits bool.splits)

lemma findIndex_nonneg_or_minus1: "findIndex P xs = - 1 \<or> 0 \<le> findIndex P xs"
  by (induction xs) (auto simp: Let_def)

lemma findIndex_append_last:
  "\<forall>x\<in>set xs. \<not> P x \<Longrightarrow> P y \<Longrightarrow> findIndex P (xs @ [y]) = int (length xs)"
  by (induction xs) (auto simp: Let_def)

lemma arrayRemove_last: "arrayRemove (xs @ [y]) (int (length xs)) = xs"
  by (simp add: arrayRemove_def)

lemma arrayRemove_minus1: "arrayRemove xs (- 1) = xs"
  by (simp add: arrayRemove_def)

lemma indexOf_pushed:
  assumes "refs_fresh s"
  shows "indexOf (openPorts s @ [(nextRef s, rq)]) (nextRef s) = int (length (openPorts s))"
  unfolding indexOf_def
  by (rule findIndex_append_last) (use assms in \<open>auto simp: refs_fresh_def\<close>)

section \<open>Mapping\<close>

text \<open>
  Claim C3. On a live client and for any validated request (whatever its ports), each
  attempt runs with its entry already pushed on the registry. When the request names
  no protocol: if both the UDP and the TCP attempt succeed, \<^verbatim>\<open>map\<close> returns \<^verbatim>\<open>true\<close>
  and the registry has gained exactly two entries, the UDP one and then the TCP one,
  which are in place when it returns; if the UDP attempt fails, \<^verbatim>\<open>map\<close> returns
  \<^verbatim>\<open>false\<close> with the registry as it was; if the TCP attempt fails after UDP succeeded,
  \<^verbatim>\<open>map\<close> returns \<^verbatim>\<open>false\<close> after removing the first entry with the TCP key. When
  the request names a protocol: if its attempt succeeds, \<^verbatim>\<open>map\<close> returns \<^verbatim>\<open>true\<close> and
  the registry has gained exactly that entry; if it fails, \<^verbatim>\<open>map\<close> returns \<^verbatim>\<open>false\<close>
  and the registry is what it was before the call.
\<close>

theorem map_records_both_or_rolls_back:
  assumes live: "\<not> destroyed s" and fresh: "refs_fresh s"
    and valid: "validateInput s a b = Inr rq"
  shows "(let rqU = rq\<lparr>protocol := Str ''UDP''\<rparr>; rqT = rq\<lparr>protocol := Str ''TCP''\<rparr>;
              (r1, s1) = priv_map e rqU (snd (push rqU s));
              (r2, s2) = priv_map e rqT (snd (push rqT s1))
          in \<not> truthy (protocol rq) \<and> r1 = Inr (True, None) \<and> r2 = Inr (True, None) \<longrightarrow>
             NatAPI_map e a b s = (Inr True, s2) \<and>
             openPorts s2 = openPorts s @ [(nextRef s, rqU), (Suc (nextRef s), rqT)]) \<and>
         (let (r, s1) = priv_map e rq (snd (push rq s))
          in truthy (protocol rq) \<and> (\<exists>err. r = Inr (False, err)) \<longrightarrow>
             fst (NatAPI_map e a b s) = Inr False \<and>
             openPorts (snd (NatAPI_map e a b s)) = openPorts s) \<and>
         (let (r, s1) = priv_map e rq (snd (push rq s))
          in truthy (protocol rq) \<and> r = Inr (True, None) \<longrightarrow>
             NatAPI_map e a b s = (Inr True, s1) \<and>
             openPorts s1 = openPorts s @ [(nextRef s, rq)]) \<and>
         (let rqU = rq\<lparr>protocol := Str ''UDP''\<rparr>;
              (r1, s1) = priv_map e rqU (snd (push rqU s))
          in \<not> truthy (protocol rq) \<and> (\<exists>err. r1 = Inr (False, err)) \<longrightarrow>
             fst (NatAPI_map e a b s) = Inr False \<and>
             openPorts (snd (NatAPI_map e a b s)) = openPorts s) \<and>
         (let rqU = rq\<lparr>protocol := Str ''UDP''\<rparr>; rqT = rq\<lparr>protocol := Str ''TCP''\<rparr>;
              (r1, s1) = priv_map e rqU (snd (push rqU s));
              (r2, s2) = priv_map e rqT (snd (push rqT s1))
          in \<not> truthy (protocol rq) \<and> r1 = Inr (True, None) \<and> (\<exists>err. r2 = Inr (False, err)) \<longrightarrow>
             fst (NatAPI_map e a b s) = Inr False \<and>
             openPorts (snd (NatAPI_map e a b s)) =
               arrayRemove (openPorts s @ [(nextRef s, rqU), (Suc (nextRef s), rqT)])
                 (findIndex (matches rqT)
                    (openPorts s @ [(nextRef s, rqU), (Suc (nextRef s), rqT)]))) \<and>
         (\<forall>r. openPorts (snd (push r s)) = openPorts s @ [(nextRef s, r)])"
proof -
  define rqU where "rqU = rq\<lparr>protocol := Str ''UDP''\<rparr>"
  define rqT where "rqT = rq\<lparr>protocol := Str ''TCP''\<rparr>"
  obtain r1 s1 where u: "priv_map e rqU (snd (push rqU s)) = (r1, s1)"
    by (cases "priv_map e rqU (snd (push rqU s))")
  obtain r2 s2 where t: "priv_map e rqT (snd (push rqT s1)) = (r2, s2)"
    by (cases "priv_map e rqT (snd (push rqT s1))")
  obtain r s3 where o: "priv_map e rq (snd (push rq s)) = (r, s3)"
    by (cases "priv_map e rq (snd (push rq s))")
  have reg1: "openPorts s1 = openPorts s @ [(nextRef s, rqU)]" "nextRef s1 = Suc (nextRef s)"
    using priv_map_registry [of e rqU "snd (push rqU s)"] u by (simp_all add: push_def)
  have reg2: "openPorts s2 = openPorts s1 @ [(nextRef s1, rqT)]"
    using priv_map_registry [of e rqT "snd (push rqT s1)"] t by (simp add: push_def)
  have reg3: "openPorts s3 = openPorts s @ [(nextRef s, rq)]"
    using priv_map_registry [of e rq "snd (push rq s)"] o by (simp add: push_def)
  have both: "NatAPI_map e a b s = (Inr True, s2)"
    if "\<not> truthy (protocol rq)" and "r1 = Inr (True, None)" and "r2 = Inr (True, None)"
    using that live valid u t
    by (simp add: NatAPI_map_def Let_def rqU_def rqT_def push_def)
  have single: "NatAPI_map e a b s =
      (Inr False, remove_at (indexOf (openPorts s3) (nextRef s)) s3)"
    if "truthy (protocol rq)" and "r = Inr (False, err)" for err
    using that live valid o by (simp add: NatAPI_map_def Let_def push_def)
  have rolled: "arrayRemove (openPorts s3) (indexOf (openPorts s3) (nextRef s)) = openPorts s"
    by (simp add: reg3 indexOf_pushed [OF fresh] arrayRemove_last)
  have kept: "NatAPI_map e a b s = (Inr True, s3)"
    if "truthy (protocol rq)" and "r = Inr (True, None)"
    using that live valid o by (simp add: NatAPI_map_def Let_def push_def)
  have udp: "NatAPI_map e a b s =
      (Inr False, remove_at (indexOf (openPorts s1) (nextRef s)) s1)"
    if "\<not> truthy (protocol rq)" and "r1 = Inr (False, err)" for err
    using that live valid u by (simp add: NatAPI_map_def Let_def rqU_def push_def)
  have udp_rolled: "arrayRemove (openPorts s1) (indexOf (openPorts s1) (nextRef s)) = openPorts s"
    by (simp add: reg1 indexOf_pushed [OF fresh] arrayRemove_last)
  have tcp: "NatAPI_map e a b s =
      (Inr False, remove_at (findIndex (matches rqT) (openPorts s2)) s2)"
    if "\<not> truthy (protocol rq)" and "r1 = Inr (True, None)" and "r2 = Inr (False, err)" for err
    using that live valid u t
    by (simp add: NatAPI_map_def Let_def rqU_def rqT_def push_def)
  have pushed: "openPorts (snd (push r' s)) = openPorts s @ [(nextRef s, r')]" for r'
    by (simp add: push_def)
  show ?thesis
    using both single rolled kept udp udp_rolled tcp pushed reg1 reg2 reg3 u t o
    by (auto simp: Let_def rqU_def rqT_def remove_at_def)
qed

lemma fresh_client_refs: "refs_fresh (NatAPI v4 c)"
  by (simp add: refs_fresh_def NatAPI_def Let_def)

theorem map_records_both_or_rolls_back_witness:
  "fst (NatAPI_map env_ok (ArgNum 1000) ArgOther upnp_client) = Inr True \<and>
   map (\<lambda>x. protocol (snd x)) (openPorts (snd (NatAPI_map env_ok (ArgNum 1000) ArgOther upnp_client))) =
     [Str ''UDP'', Str ''TCP''] \<and>
   fst (NatAPI_map env_down (ArgObj (request_for 1000 1000 (Str ''TCP''))) ArgOther upnp_client) = Inr False \<and>
   openPorts (snd (NatAPI_map env_down (ArgObj (request_for 1000 1000 (Str ''TCP''))) ArgOther upnp_client)) = [] \<and>
   fst (NatAPI_map env_ok (ArgObj (request_for 1000 1000 (Str ''TCP''))) ArgOther upnp_client) = Inr True \<and>
   openPorts (snd (NatAPI_map env_ok (ArgObj (request_for 1000 1000 (Str ''TCP''))) ArgOther upnp_client)) =
     [(0, request_for 1000 1000 (Str ''TCP'')\<lparr>description := Some ''NatAPI'', ttl := Some 7200\<rparr>)] \<and>
   fst (NatAPI_map env_down (ArgNum 1000) ArgOther upnp_client) = Inr False \<and>
   openPorts (snd (NatAPI_map env_down (ArgNum 1000) ArgOther upnp_client)) = []"
proof -
  have live: "\<not> destroyed upnp_client" by (simp add: client_defs)
  have fresh: "refs_fresh upnp_client" by (simp add: upnp_client_def fresh_client_refs)
  have v1: "validateInput upnp_client (ArgNum 1000) ArgOther =
      Inr (request_for 1000 1000 Null\<lparr>description := Some ''NatAPI'', ttl := Some 7200\<rparr>)"
    by (simp add: validateInput_def fill_defaults_def empty_opts_def request_for_def client_defs)
  have v2: "validateInput upnp_client (ArgObj (request_for 1000 1000 (Str ''TCP''))) ArgOther =
      Inr (request_for 1000 1000 (Str ''TCP'')\<lparr>description := Some ''NatAPI'', ttl := Some 7200\<rparr>)"
    by (simp add: validateInput_def fill_defaults_def empty_opts_def request_for_def client_defs
        valid_protocol_strings)
  from map_records_both_or_rolls_back [OF live fresh v1, of env_ok]
  have "fst (NatAPI_map env_ok (ArgNum 1000) ArgOther upnp_client) = Inr True \<and>
   map (\<lambda>x. protocol (snd x)) (openPorts (snd (NatAPI_map env_ok (ArgNum 1000) ArgOther upnp_client))) =
     [Str ''UDP'', Str ''TCP'']"
    by (simp add: request_for_def empty_opts_def push_def priv_map_def upnpMap_def logged_def
        setInterval_def interval_key_def show_port_def client_defs env_ok_def Let_def
        split: prod.splits)
  moreover
  from map_records_both_or_rolls_back [OF live fresh v2, of env_down]
  have "fst (NatAPI_map env_down (ArgObj (request_for 1000 1000 (Str ''TCP''))) ArgOther upnp_client) = Inr False \<and>
   openPorts (snd (NatAPI_map env_down (ArgObj (request_for 1000 1000 (Str ''TCP''))) ArgOther upnp_client)) = []"
    by (simp add: request_for_def empty_opts_def push_def priv_map_def upnpMap_def logged_def
        client_defs env_down_def Let_def split: prod.splits)
  moreover
  from map_records_both_or_rolls_back [OF live fresh v2, of env_ok]
  have "fst (NatAPI_map env_ok (ArgObj (request_for 1000 1000 (Str ''TCP''))) ArgOther upnp_client) = Inr True \<and>
   openPorts (snd (NatAPI_map env_ok (ArgObj (request_for 1000 1000 (Str ''TCP''))) ArgOther upnp_client)) =
     [(0, request_for 1000 1000 (Str ''TCP'')\<lparr>description := Some ''NatAPI'', ttl := Some 7200\<rparr>)]"
    by (simp add: request_for_def empty_opts_def push_def priv_map_def upnpMap_def logged_def
        setInterval_def interval_key_def show_port_def client_defs env_ok_def Let_def
        split: prod.splits)
  moreover
  from map_records_both_or_rolls_back [OF live fresh v1, of env_down]
  have "fst (NatAPI_map env_down (ArgNum 1000) ArgOther upnp_client) = Inr False \<and>
   openPorts (snd (NatAPI_map env_down (ArgNum 1000) ArgOther upnp_client)) = []"
    by (simp add: request_for_def empty_opts_def push_def priv_map_def upnpMap_def logged_def
        client_defs env_down_def Let_def split: prod.splits)
  ultimately show ?thesis by blast
qed

section \<open>Invariants of the client\<close>

text \<open>
  The identity invariant holds for a new client and is kept by every operation, so it
  holds in every state a client can reach. The constructor's defaults are never empty,
  and validation leaves an already validated request alone, which is why handing a
  registry entry back to \<^verbatim>\<open>unmap\<close>, as \<^verbatim>\<open>destroy\<close> does, does not change the entry.
\<close>

lemma fill_defaults_idempotent:
  assumes "fill_defaults s rq = Inr rq'" and d: "default_description s \<noteq> []"
    and t: "default_ttl s \<noteq> 0"
  shows "fill_defaults s rq' = Inr rq'"
proof -
  from assms(1) have ok: "\<not> (truthy (protocol rq) \<and>
      (case protocol rq of Str p \<Rightarrow> \<not> valid_protocol_string p | _ \<Rightarrow> True))"
    by (simp add: fill_defaults_def split: if_splits)
  with assms(1) have p: "protocol rq' = (if truthy (protocol rq) then protocol rq else Null)"
    and de: "description rq' = (case description rq of None \<Rightarrow> Some (default_description s)
           | Some d \<Rightarrow> if d = [] then Some (default_description s) else Some d)"
    and tt: "ttl rq' = (case ttl rq of None \<Rightarrow> Some (default_ttl s)
           | Some t \<Rightarrow> if t = 0 then Some (default_ttl s) else Some t)"
    and g: "gateway rq' = (case gateway rq of None \<Rightarrow> default_gateway s
           | Some g \<Rightarrow> if g = [] then default_gateway s else Some g)"
    by (auto simp: fill_defaults_def)
  have 1: "(if truthy (protocol rq') then protocol rq' else Null) = protocol rq'"
    by (simp add: p)
  have 2: "\<not> (truthy (protocol rq') \<and>
      (case protocol rq' of Str p \<Rightarrow> \<not> valid_protocol_string p | _ \<Rightarrow> True))"
    using ok by (simp add: p)
  have 3: "(case description rq' of None \<Rightarrow> Some (default_description s)
           | Some d \<Rightarrow> if d = [] then Some (default_description s) else Some d) = description rq'"
    using d by (simp add: de split: option.splits)
  have 4: "(case ttl rq' of None \<Rightarrow> Some (default_ttl s)
           | Some t \<Rightarrow> if t = 0 then Some (default_ttl s) else Some t) = ttl rq'"
    using t by (simp add: tt split: option.splits)
  have 5: "(case gateway rq' of None \<Rightarrow> default_gateway s
           | Some g \<Rightarrow> if g = [] then default_gateway s else Some g) = gateway rq'"
    by (cases "gateway rq"; cases "default_gateway s"; simp add: g)
  show ?thesis
    unfolding fill_defaults_def using 2 by (simp only: 1 3 4 5 if_False) simp
qed


lemma constructor_defaults:
  "default_description (NatAPI v4 c) \<noteq> [] \<and> default_ttl (NatAPI v4 c) \<noteq> 0"
  by (auto simp: NatAPI_def Let_def split: option.splits)

lemma set_arrayRemove: "set (arrayRemove xs i) \<subseteq> set xs"
proof (cases "int (length xs) \<le> i \<or> i < 0")
  case True
  then show ?thesis by (simp add: arrayRemove_def)
next
  case False
  then have ne: "xs \<noteq> []" by auto
  have "set ((butlast xs)[nat i := last xs]) \<subseteq> insert (last xs) (set (butlast xs))"
    by (rule set_update_subset_insert)
  also have "\<dots> \<subseteq> set xs"
    using ne by (auto dest: in_set_butlastD)
  finally have "set ((butlast xs)[nat i := last xs]) \<subseteq> set xs" .
  moreover have "set (butlast xs) \<subseteq> set xs" by (auto dest: in_set_butlastD)
  ultimately show ?thesis using False by (simp add: arrayRemove_def Let_def)
qed

lemma refs_fresh_remove_at: "refs_fresh s \<Longrightarrow> refs_fresh (remove_at i s)"
  using set_arrayRemove [of "openPorts s" i] by (auto simp: refs_fresh_def remove_at_def)

lemma refs_fresh_push: "refs_fresh s \<Longrightarrow> refs_fresh (snd (push rq s))"
  by (auto simp: refs_fresh_def push_def)

lemma refs_fresh_priv_map: "refs_fresh s \<Longrightarrow> refs_fresh (snd (priv_map e rq s))"
  using priv_map_registry [of e rq s] by (simp add: refs_fresh_def)

lemma refs_fresh_priv_unmap: "refs_fresh s \<Longrightarrow> refs_fresh (snd (priv_unmap e rq s))"
  using priv_unmap_registry [of e rq s] by (simp add: refs_fresh_def)


lemma refs_fresh_map: "refs_fresh s \<Longrightarrow> refs_fresh (snd (NatAPI_map e a b s))"
  by (auto simp: NatAPI_map_def Let_def split_beta split: sum.splits
      intro!: refs_fresh_remove_at refs_fresh_priv_map refs_fresh_push)

lemma refs_fresh_unmap: "refs_fresh s \<Longrightarrow> refs_fresh (snd (NatAPI_unmap e a b s))"
  by (auto simp: NatAPI_unmap_def Let_def split_beta split: sum.splits
      intro!: refs_fresh_priv_unmap refs_fresh_remove_at)


lemma refs_fresh_unmap_all: "refs_fresh s \<Longrightarrow> refs_fresh (unmap_all e xs s)"
  by (induction xs arbitrary: s) (simp_all add: refs_fresh_unmap)

lemma refs_fresh_destroy: "refs_fresh s \<Longrightarrow> refs_fresh (snd (destroy e s))"
proof -
  assume fresh: "refs_fresh s"
  then have "refs_fresh (unmap_all e (openPorts s) s)" by (rule refs_fresh_unmap_all)
  with fresh show ?thesis
    by (auto simp: destroy_def refs_fresh_def logged_def Let_def split: outcome.splits)
qed

lemma refs_fresh_fire: "refs_fresh s \<Longrightarrow> refs_fresh (fire e h s)"
  using upnpMap_registry
  by (simp add: fire_def refs_fresh_def split: option.splits callback.splits)

section \<open>Unmapping\<close>

lemma unmap_registry:
  assumes "\<not> destroyed s" and "validateInput s a b = Inr rq"
  shows "openPorts (snd (NatAPI_unmap e a b s)) =
           arrayRemove (openPorts s) (findIndex (matches rq) (openPorts s))"
proof -
  let ?s0 = "remove_at (findIndex (matches rq) (openPorts s)) s"
  let ?U = "rq\<lparr>protocol := Str ''UDP''\<rparr>" and ?T = "rq\<lparr>protocol := Str ''TCP''\<rparr>"
  have 0: "openPorts ?s0 = arrayRemove (openPorts s) (findIndex (matches rq) (openPorts s))"
    by (simp add: remove_at_def)
  have 1: "openPorts (snd (priv_unmap e r ?s0)) = openPorts ?s0" for r
    using priv_unmap_registry by blast
  have 2: "openPorts (snd (priv_unmap e r' (snd (priv_unmap e r ?s0)))) = openPorts ?s0" for r r'
    using priv_unmap_registry by metis
  show ?thesis
    using assms 1 [of rq] 1 [of ?U] 2 [of ?T ?U]
    by (auto simp: NatAPI_unmap_def Let_def 0 split: prod.splits sum.splits)
qed

text \<open>
  Claim C2. The removal from the registry does precede the protocol calls and does not
  depend on them (\<open>unmap_registry\<close>), but it removes one entry only, the first match.
  After \<^verbatim>\<open>map(1000)\<close> has stored the UDP and the TCP entry, \<^verbatim>\<open>unmap(1000)\<close> (no
  protocol: both entries match) unmaps both protocols at the gateway, reports success,
  and leaves the TCP entry in the registry.
\<close>

theorem unmap_leaves_second_match:
  "map (\<lambda>x. protocol (snd x))
     (openPorts (snd (NatAPI_map env_ok (ArgNum 1000) ArgOther upnp_client))) =
     [Str ''UDP'', Str ''TCP''] \<and>
   fst (NatAPI_unmap env_ok (ArgNum 1000) ArgOther
          (snd (NatAPI_map env_ok (ArgNum 1000) ArgOther upnp_client))) = Inr True \<and>
   openPorts (snd (NatAPI_unmap env_ok (ArgNum 1000) ArgOther
          (snd (NatAPI_map env_ok (ArgNum 1000) ArgOther upnp_client)))) =
     [(1, request_for 1000 1000 (Str ''TCP'')\<lparr>description := Some ''NatAPI'', ttl := Some 7200\<rparr>)]"
  by (simp add: op_defs client_defs env_ok_def)

text \<open>
  Claim C4, as stated, fails: with a gateway that refuses to remove the UDP mapping and
  would remove the TCP one, \<^verbatim>\<open>unmap(1000)\<close> makes the UDP call only.
\<close>

theorem unmap_stops_after_failed_udp_counterexample:
  "trace (snd (NatAPI_unmap env_udp_down (ArgNum 1000) ArgOther upnp_client)) =
     [UpnpPortUnmapping (Some 1000) (Some 1000) (Str ''UDP'')] \<and>
   upnp env_udp_down [UpnpPortUnmapping (Some 1000) (Some 1000) (Str ''UDP'')]
     (UpnpPortUnmapping (Some 1000) (Some 1000) (Str ''TCP'')) = Resolved []"
  by (simp add: op_defs client_defs env_udp_down_def)

text \<open>
  Claim C4, amended. An \<^verbatim>\<open>unmap\<close> without protocol attempts UDP first. When that
  attempt fails the call returns \<^verbatim>\<open>false\<close> in the state the UDP attempt left (no TCP
  attempt is made); when it succeeds the TCP attempt follows and the call returns
  whether it succeeded. So success is reported exactly when both attempts succeed.
\<close>

theorem unmap_tries_tcp_only_after_udp:
  assumes live: "\<not> destroyed s" and valid: "validateInput s a b = Inr rq"
    and wild: "\<not> truthy (protocol rq)"
  shows "(let s0 = remove_at (findIndex (matches rq) (openPorts s)) s;
              (r1, s1) = priv_unmap e (rq\<lparr>protocol := Str ''UDP''\<rparr>) s0;
              (r2, s2) = priv_unmap e (rq\<lparr>protocol := Str ''TCP''\<rparr>) s1
          in (if r1 = Inr (True, None)
              then NatAPI_unmap e a b s = (Inr (r2 = Inr (True, None)), s2)
              else NatAPI_unmap e a b s = (Inr False, s1)))"
proof -
  let ?s0 = "remove_at (findIndex (matches rq) (openPorts s)) s"
  obtain r1 s1 where u: "priv_unmap e (rq\<lparr>protocol := Str ''UDP''\<rparr>) ?s0 = (r1, s1)"
    by (cases "priv_unmap e (rq\<lparr>protocol := Str ''UDP''\<rparr>) ?s0")
  obtain r2 s2 where t: "priv_unmap e (rq\<lparr>protocol := Str ''TCP''\<rparr>) s1 = (r2, s2)"
    by (cases "priv_unmap e (rq\<lparr>protocol := Str ''TCP''\<rparr>) s1")
  have live0: "\<not> destroyed ?s0" using live by (simp add: remove_at_def)
  have live1: "\<not> destroyed s1"
    using priv_unmap_registry [of e "rq\<lparr>protocol := Str ''UDP''\<rparr>" ?s0] u live0 by simp
  obtain ok1 err1 where r1: "r1 = Inr (ok1, err1)"
    using priv_unmap_returns [OF live0, of e "rq\<lparr>protocol := Str ''UDP''\<rparr>"] u by auto
  obtain ok2 err2 where r2: "r2 = Inr (ok2, err2)"
    using priv_unmap_returns [OF live1, of e "rq\<lparr>protocol := Str ''TCP''\<rparr>"] t by auto
  have n1: "ok1 \<Longrightarrow> err1 = None"
    using u r1 by (auto simp: priv_unmap_def split: if_splits prod.splits sum.splits bool.splits)
  have n2: "ok2 \<Longrightarrow> err2 = None"
    using t r2 by (auto simp: priv_unmap_def split: if_splits prod.splits sum.splits bool.splits)
  show ?thesis
    using live valid wild u t r1 r2 n1 n2
    by (auto simp: NatAPI_unmap_def Let_def)
qed

theorem unmap_tries_tcp_only_after_udp_witness:
  "fst (NatAPI_unmap env_udp_down (ArgNum 1000) ArgOther upnp_client) = Inr False \<and>
   fst (NatAPI_unmap env_ok (ArgNum 1000) ArgOther upnp_client) = Inr True"
proof -
  have live: "\<not> destroyed upnp_client" by (simp add: client_defs)
  have v: "validateInput upnp_client (ArgNum 1000) ArgOther =
      Inr (request_for 1000 1000 Null\<lparr>description := Some ''NatAPI'', ttl := Some 7200\<rparr>)"
    by (simp add: validateInput_def fill_defaults_def empty_opts_def request_for_def client_defs)
  have w: "\<not> truthy (protocol
      (request_for 1000 1000 Null\<lparr>description := Some ''NatAPI'', ttl := Some 7200\<rparr>))"
    by (simp add: request_for_def empty_opts_def)
  from unmap_tries_tcp_only_after_udp [OF live v w, of env_udp_down]
  have "fst (NatAPI_unmap env_udp_down (ArgNum 1000) ArgOther upnp_client) = Inr False"
    by (simp add: request_for_def empty_opts_def remove_at_def arrayRemove_def priv_unmap_def
        upnpUnmap_def logged_def client_defs env_udp_down_def Let_def split: prod.splits)
  moreover
  from unmap_tries_tcp_only_after_udp [OF live v w, of env_ok]
  have "fst (NatAPI_unmap env_ok (ArgNum 1000) ArgOther upnp_client) = Inr True"
    by (simp add: request_for_def empty_opts_def remove_at_def arrayRemove_def priv_unmap_def
        upnpUnmap_def logged_def interval_key_def show_port_def client_defs env_ok_def Let_def
        split: prod.splits)
  ultimately show ?thesis by blast
qed

section \<open>Validation comes first\<close>

text \<open>
  Claim C5, as stated, fails on the port range: \<^verbatim>\<open>_validateInput\<close> never looks at the
  port numbers. \<^verbatim>\<open>map(70000)\<close> passes validation and both UPnP requests go out with
  port 70000.
\<close>

theorem map_accepts_port_outside_uint16_counterexample:
  "validateInput upnp_client (ArgNum 70000) ArgOther =
     Inr (request_for 70000 70000 Null\<lparr>description := Some ''NatAPI'', ttl := Some 7200\<rparr>) \<and>
   fst (NatAPI_map env_ok (ArgNum 70000) ArgOther upnp_client) = Inr True \<and>
   trace (snd (NatAPI_map env_ok (ArgNum 70000) ArgOther upnp_client)) =
     [UpnpPortMapping (Some 70000) (Some 70000) (Some ''NatAPI'') (Str ''UDP'') (Some 7200),
      UpnpPortMapping (Some 70000) (Some 70000) (Some ''NatAPI'') (Str ''TCP'') (Some 7200)]"
  by (simp add: op_defs client_defs env_ok_def)

text \<open>
  Claim C5, amended. On a live client, \<^verbatim>\<open>map\<close> and \<^verbatim>\<open>unmap\<close> check the shape and the
  protocol of the request before anything else: when the first argument is neither an
  object nor a number, or is \<^verbatim>\<open>null\<close>, or carries a truthy protocol that is not a string
  spelling UDP or TCP in some casing, the call throws and the client is left exactly as
  it was, so no protocol call was made. (Port numbers are not range-checked:
  \<open>validateInput_ignores_ports\<close>.)
\<close>

theorem invalid_shape_or_protocol_fails_before_any_call:
  assumes live: "\<not> destroyed s"
    and bad: "a = ArgOther \<or> a = ArgNull \<or>
      (\<exists>rq. a = ArgObj rq \<and> truthy (protocol rq) \<and>
            (\<forall>p. protocol rq = Str p \<longrightarrow> \<not> valid_protocol_string p))"
  shows "\<exists>err. validateInput s a b = Inl err \<and>
           NatAPI_map e a b s = (Inl err, s) \<and> NatAPI_unmap e a b s = (Inl err, s)"
proof -
  have "\<exists>err. validateInput s a b = Inl err"
    using bad by (auto simp: validateInput_def fill_defaults_def split: js_val.splits)
  then show ?thesis
    using live by (auto simp: NatAPI_map_def NatAPI_unmap_def)
qed

lemma validateInput_ignores_ports:
  "\<exists>rq. validateInput s (ArgNum p) (ArgNum q) = Inr rq \<and>
        publicPort rq = Some p \<and> privatePort rq = Some q"
  "\<exists>rq. validateInput s (ArgNum p) ArgOther = Inr rq \<and>
        publicPort rq = Some p \<and> privatePort rq = Some p"
  by (simp_all add: validateInput_def fill_defaults_def empty_opts_def)

lemma validateInput_errors:
  "validateInput s a b = Inl err \<Longrightarrow>
     err = Error ''port was not specified'' \<or> err = Error ''protocol is invalid'' \<or>
     err = TypeError ''Cannot read properties of null''"
  by (auto simp: validateInput_def fill_defaults_def split: arg.splits if_splits)

theorem invalid_shape_or_protocol_fails_before_any_call_witness:
  "(\<exists>err. validateInput upnp_client (ArgObj (request_for 1000 1000 (Str ''SCTP''))) ArgOther = Inl err \<and>
     NatAPI_map env_ok (ArgObj (request_for 1000 1000 (Str ''SCTP''))) ArgOther upnp_client =
       (Inl err, upnp_client) \<and>
     NatAPI_unmap env_ok (ArgObj (request_for 1000 1000 (Str ''SCTP''))) ArgOther upnp_client =
       (Inl err, upnp_client))"
proof -
  have live: "\<not> destroyed upnp_client" by (simp add: client_defs)
  have "\<not> valid_protocol_string ''SCTP''" by code_simp
  then have bad: "ArgObj (request_for 1000 1000 (Str ''SCTP'')) = ArgOther \<or>
      ArgObj (request_for 1000 1000 (Str ''SCTP'')) = ArgNull \<or>
      (\<exists>rq. ArgObj (request_for 1000 1000 (Str ''SCTP'')) = ArgObj rq \<and> truthy (protocol rq) \<and>
            (\<forall>p. protocol rq = Str p \<longrightarrow> \<not> valid_protocol_string p))"
    by (simp add: request_for_def empty_opts_def)
  show ?thesis
    by (rule invalid_shape_or_protocol_fails_before_any_call [OF live bad])
qed

section \<open>External address\<close>

text \<open>
  Claim C8. On a live client \<^verbatim>\<open>externalIp\<close> never throws. When a NAT-PMP client
  exists it is asked first, and a non-empty address from it is the result, with no
  UPnP request made. When it gives no address (rejection, timeout or an empty answer)
  and a UPnP client exists, UPnP is asked next and its address, or the empty string
  when it fails too, is the result; without a UPnP client the result is the empty
  string after the one NAT-PMP request. Without a NAT-PMP client UPnP is asked
  directly, and without either client nothing is asked. When neither protocol yields
  an address the result is the empty string.
\<close>

theorem externalIp_falls_back_and_never_throws:
  assumes live: "\<not> destroyed s"
  shows "(\<exists>ip. fst (externalIp e s) = Inr ip) \<and>
    (pmpClient s \<noteq> None \<longrightarrow>
       (\<exists>rest. trace (snd (externalIp e s)) = trace s @ PmpExternalIp # rest)) \<and>
    (\<forall>ip. pmpClient s \<noteq> None \<and> pmp e (trace s) PmpExternalIp = Won (Resolved ip) \<and> ip \<noteq> [] \<longrightarrow>
         trace (snd (externalIp e s)) = trace s @ [PmpExternalIp] \<and>
         fst (externalIp e s) = Inr ip) \<and>
    (pmpClient s \<noteq> None \<and> upnpClient s \<and>
       (\<forall>ip. pmp e (trace s) PmpExternalIp = Won (Resolved ip) \<longrightarrow> ip = []) \<longrightarrow>
         trace (snd (externalIp e s)) = trace s @ [PmpExternalIp, UpnpExternalIp] \<and>
         fst (externalIp e s) =
           Inr (case upnp e (trace s @ [PmpExternalIp]) UpnpExternalIp of
                  Resolved ip \<Rightarrow> ip | Rejected m \<Rightarrow> [])) \<and>
    (pmpClient s \<noteq> None \<and> \<not> upnpClient s \<and>
       (\<forall>ip. pmp e (trace s) PmpExternalIp = Won (Resolved ip) \<longrightarrow> ip = []) \<longrightarrow>
         trace (snd (externalIp e s)) = trace s @ [PmpExternalIp] \<and>
         fst (externalIp e s) = Inr []) \<and>
    (pmpClient s = None \<and> upnpClient s \<longrightarrow>
         trace (snd (externalIp e s)) = trace s @ [UpnpExternalIp] \<and>
         fst (externalIp e s) =
           Inr (case upnp e (trace s) UpnpExternalIp of Resolved ip \<Rightarrow> ip | Rejected m \<Rightarrow> [])) \<and>
    (pmpClient s = None \<and> \<not> upnpClient s \<longrightarrow> externalIp e s = (Inr [], s)) \<and>
    ((\<forall>ip. pmp e (trace s) PmpExternalIp = Won (Resolved ip) \<longrightarrow> ip = []) \<and>
     (\<forall>tr ip. upnp e tr UpnpExternalIp = Resolved ip \<longrightarrow> ip = []) \<longrightarrow>
         fst (externalIp e s) = Inr [])"
  using live
  by (auto simp: externalIp_def pmpIp_def upnpIp_def logged_def Let_def
      split: option.splits raced.splits outcome.splits)

lemma destroyed_externalIp_throws:
  "destroyed s \<Longrightarrow> externalIp e s = (Inl (Error ''client is destroyed''), s)"
  by (simp add: externalIp_def)

theorem externalIp_falls_back_and_never_throws_witness:
  "fst (externalIp env_two_addresses dual_client) = Inr ''198.51.100.1'' \<and>
   trace (snd (externalIp env_two_addresses dual_client)) = [PmpExternalIp] \<and>
   fst (externalIp env_pmp_silent dual_client) = Inr ''203.0.113.7'' \<and>
   trace (snd (externalIp env_pmp_silent dual_client)) = [PmpExternalIp, UpnpExternalIp] \<and>
   fst (externalIp env_down dual_client) = Inr []"
proof -
  have live: "\<not> destroyed dual_client" by (simp add: client_defs)
  from externalIp_falls_back_and_never_throws [OF live, of env_two_addresses]
  have "fst (externalIp env_two_addresses dual_client) = Inr ''198.51.100.1'' \<and>
     trace (snd (externalIp env_two_addresses dual_client)) = [PmpExternalIp]"
    by (simp add: client_defs env_two_addresses_def)
  moreover
  from externalIp_falls_back_and_never_throws [OF live, of env_pmp_silent]
  have "fst (externalIp env_pmp_silent dual_client) = Inr ''203.0.113.7'' \<and>
     trace (snd (externalIp env_pmp_silent dual_client)) = [PmpExternalIp, UpnpExternalIp]"
    by (simp add: client_defs env_pmp_silent_def)
  moreover
  from externalIp_falls_back_and_never_throws [OF live, of env_down]
  have "fst (externalIp env_down dual_client) = Inr []"
    by (simp add: client_defs env_down_def)
  ultimately show ?thesis by blast
qed

section \<open>Renewal\<close>

lemma show_int_6690: "show_int 6690 = ''6690''"
  by (simp add: show_int_def show_nat.simps)

lemma fire_pmp_renewal:
  "timers s h = Some t \<Longrightarrow> callback t = PmpRenewal rq \<Longrightarrow> fire e h s = s"
  by (simp add: fire_def)

text \<open>
  Claim C9. A client with both protocols and the default lifetime of 7200 s maps port
  6690 over TCP with a lifetime of 1800 s, and NAT-PMP grants it. The interval stored
  for the mapping has the period of the client-wide lifetime, 6600000 ms, not
  (1800 - 600) s; and when it fires, against any environment, the client is exactly as
  before: no mapping request is issued again.
\<close>

theorem pmp_renewal_reissues_nothing:
  "fst (NatAPI_map env_ok (ArgObj (request_for 6690 6690 (Str ''TCP'')\<lparr>ttl := Some 1800\<rparr>))
          ArgOther dual_client) = Inr True \<and>
   trace (snd (NatAPI_map env_ok (ArgObj (request_for 6690 6690 (Str ''TCP'')\<lparr>ttl := Some 1800\<rparr>))
          ArgOther dual_client)) =
     [PmpPortMapping (Some 6690) (Some 6690) (Str ''TCP'') (Some 1800)] \<and>
   pmpIntervals (snd (NatAPI_map env_ok (ArgObj (request_for 6690 6690 (Str ''TCP'')\<lparr>ttl := Some 1800\<rparr>))
          ArgOther dual_client)) ''6690:6690-TCP'' = Some 0 \<and>
   timers (snd (NatAPI_map env_ok (ArgObj (request_for 6690 6690 (Str ''TCP'')\<lparr>ttl := Some 1800\<rparr>))
          ArgOther dual_client)) 0 =
     Some \<lparr>callback = PmpRenewal (request_for 6690 6690 (Str ''TCP'')
                \<lparr>description := Some ''NatAPI'', ttl := Some 1800\<rparr>),
           period = 6600000\<rparr> \<and>
   fire e 0 (snd (NatAPI_map env_ok (ArgObj (request_for 6690 6690 (Str ''TCP'')\<lparr>ttl := Some 1800\<rparr>))
          ArgOther dual_client)) =
     snd (NatAPI_map env_ok (ArgObj (request_for 6690 6690 (Str ''TCP'')\<lparr>ttl := Some 1800\<rparr>))
          ArgOther dual_client)"
  by (simp add: op_defs client_defs env_ok_def fire_def valid_protocol_strings show_int_6690)

section \<open>Protocol casing\<close>

text \<open>
  Claim C10. On a UPnP-only client with a granting gateway, for any ports: a mapping
  requested with protocol \<^verbatim>\<open>'tcp'\<close> is accepted and stored with that spelling, as is
  the key of its renewal interval. An \<^verbatim>\<open>unmap\<close> with \<^verbatim>\<open>'TCP'\<close> succeeds at the gateway
  but leaves the registry entry, the interval and its timer in place; an \<^verbatim>\<open>unmap\<close>
  with \<^verbatim>\<open>'tcp'\<close> removes all three.
\<close>

theorem protocol_case_breaks_round_trip:
  "(let mapped = NatAPI_map env_ok (ArgObj (request_for p q (Str ''tcp''))) ArgOther upnp_client;
        key = interval_key (request_for p q (Str ''tcp''));
        other = NatAPI_unmap env_ok (ArgObj (request_for p q (Str ''TCP''))) ArgOther (snd mapped);
        same = NatAPI_unmap env_ok (ArgObj (request_for p q (Str ''tcp''))) ArgOther (snd mapped)
    in fst mapped = Inr True \<and>
       map (\<lambda>x. protocol (snd x)) (openPorts (snd mapped)) = [Str ''tcp''] \<and>
       upnpIntervals (snd mapped) key = Some 0 \<and>
       timers (snd mapped) 0 \<noteq> None \<and>
       fst other = Inr True \<and>
       openPorts (snd other) = openPorts (snd mapped) \<and>
       upnpIntervals (snd other) key = Some 0 \<and>
       timers (snd other) 0 \<noteq> None \<and>
       fst same = Inr True \<and>
       openPorts (snd same) = [] \<and>
       upnpIntervals (snd same) key = None \<and>
       timers (snd same) 0 = None)"
  by (simp add: op_defs client_defs env_ok_def valid_protocol_strings)

theorem protocol_case_breaks_round_trip_witness:
  "openPorts (snd (NatAPI_unmap env_ok (ArgObj (request_for 6690 6690 (Str ''TCP''))) ArgOther
      (snd (NatAPI_map env_ok (ArgObj (request_for 6690 6690 (Str ''tcp''))) ArgOther upnp_client)))) =
   openPorts (snd (NatAPI_map env_ok (ArgObj (request_for 6690 6690 (Str ''tcp''))) ArgOther upnp_client)) \<and>
   map (\<lambda>x. protocol (snd x)) (openPorts (snd (NatAPI_map env_ok (ArgObj (request_for 6690 6690 (Str ''tcp''))) ArgOther upnp_client))) = [Str ''tcp'']"
  using protocol_case_breaks_round_trip [of 6690 6690]
  by (simp add: Let_def)

section \<open>Service discovery\<close>

lemmas doc_defs = ppp_then_ip_def incomplete_then_complete_def ip_only_def description_with_def
  service_node_def

lemmas device_defs = getService_def getXml_def parseDescription_def traverseDevices.simps
  child_list_def toArray_def accepted_def lacks_def prop_string_def addPrefix_def router_def
  igd_def Device_def Let_def

lemma addPrefix_error: "addPrefix pf base u = Inl err \<Longrightarrow> err = TypeError ''Invalid URL''"
  by (auto simp: addPrefix_def Let_def split: option.splits)

text \<open>The order of the collected services: those of the nested devices, device by
  device, before the device's own.\<close>

lemma traverseDevices_services:
  "xml_truthy d \<Longrightarrow>
     fst (traverseDevices d) =
       concat (map (\<lambda>c. fst (traverseDevices c)) (child_list d ''deviceList'' ''device'')) @
       filter xml_truthy (child_list d ''serviceList'' ''service'')"
  by (subst traverseDevices.simps) (simp add: Let_def comp_def)

text \<open>
  Claim C6, amended. The services are collected by the depth-first traversal
  \<open>traverseDevices\<close>, and \<^verbatim>\<open>_getService\<close> takes the first of them, in that order, whose
  type is one of the accepted types; the order of the accepted types plays no part.
  Once the description has been fetched, it fails with \<^verbatim>\<open>Service not found\<close> exactly
  when there is no such service or that first one lacks a control URL or an SCPD URL;
  and when it succeeds, the service type returned is that of this first service.
\<close>

theorem getService_takes_first_accepted_service:
  assumes "getXml pf hist (dev_url this) = (Inr info, hist')"
  shows "(fst (getService pf this hist types) = Inl (Error ''Service not found'')) =
           (case filter (accepted types) (fst (parseDescription info)) of
              [] \<Rightarrow> True
            | s0 # others \<Rightarrow> lacks s0 ''controlURL'' \<or> lacks s0 ''SCPDURL'') \<and>
         (\<forall>r. fst (getService pf this hist types) = Inr r \<longrightarrow>
            (\<exists>s0 others. filter (accepted types) (fst (parseDescription info)) = s0 # others \<and>
               get s0 ''serviceType'' = Some (XText (service r))))"
proof (cases "filter (accepted types) (fst (parseDescription info))")
  case Nil
  with assms show ?thesis by (simp add: getService_def)
next
  case (Cons s0 others)
  then have "s0 \<in> set (filter (accepted types) (fst (parseDescription info)))" by simp
  then have "accepted types s0" by simp
  then obtain t where t: "get s0 ''serviceType'' = Some (XText t)"
    by (auto simp: accepted_def split: option.splits xml.splits)
  then have "prop_string s0 ''serviceType'' = t" by (simp add: prop_string_def)
  with assms Cons t show ?thesis
    by (auto simp: getService_def split: option.splits sum.splits dest: addPrefix_error)
qed

theorem getService_takes_first_accepted_service_witness:
  "fst (getService (router ip_only always_725) igd [] (services igd)) \<noteq>
     Inl (Error ''Service not found'')"
proof -
  have "getXml (router ip_only always_725) [] (dev_url igd) = (Inr ip_only, [Get (dev_url igd)])"
    by (simp add: getXml_def router_def)
  from getService_takes_first_accepted_service [OF this, of "services igd"]
  show ?thesis
    by (simp add: parseDescription_def traverseDevices.simps child_list_def toArray_def
        accepted_def lacks_def igd_def Device_def doc_defs)
qed

text \<open>
  Claim C6, as stated, fails twice. A description that lists a WANPPPConnection:1
  service before a WANIPConnection:1 service resolves to the PPP service, so document
  order decides, not the priority order. And a description whose first accepted
  service has no control URL is rejected with \<^verbatim>\<open>Service not found\<close> although the next
  accepted service has both URLs.
\<close>

theorem getService_ignores_priority_counterexample:
  "fst (getService (router ppp_then_ip always_725) igd [] (services igd)) =
     Inr \<lparr>service = ''urn:schemas-upnp-org:service:WANPPPConnection:1'',
          SCPDURL = ''http://192.168.1.1:5000/WANPPPCn.xml'',
          controlURL = ''http://192.168.1.1:5000/ctl/PPPConn''\<rparr> \<and>
   fst (getService (router incomplete_then_complete always_725) igd [] (services igd)) =
     Inl (Error ''Service not found'')"
  by (simp add: device_defs doc_defs)

section \<open>Resubmission on fault 725\<close>


lemma run_Throw:
  "run_body pf this hist action args = (Throw err, hist') \<Longrightarrow>
     run pf this hist action args = Some (Inl err, hist')"
  by (subst run.simps) simp



text \<open>A pass reaches the recursive call exactly on such a fault, and then with the last
  argument replaced.\<close>

lemma on_fault_725_iff:
  "(on_fault pf body args = Resubmit args') =
     (upnp_error_725 pf body \<and>
      args' = args[length args - 1 := (''NewLeaseDuration'', Num 0)])"
  by (auto simp: on_fault_def upnp_error_725_def Let_def
      split: option.splits xml.splits if_splits)

lemma getService_requests:
  "snd (getService pf this hist types) = hist @ [Get (dev_url this)]"
  by (auto simp: getService_def getXml_def Let_def split: sum.splits list.splits option.splits)

lemma run_body_725_iff:
  "(\<exists>args'. fst (run_body pf this hist action args) = Resubmit args') =
     answers_725 pf this hist action args"
  by (auto simp: run_body_def answers_725_def on_fault_725_iff Let_def
      split: prod.splits sum.splits if_splits)

lemma answers_725_pass:
  assumes "answers_725 pf this hist action args"
  shows "run_body pf this hist action args =
           (Resubmit (args[length args - 1 := (''NewLeaseDuration'', Num 0)]),
            snd (run_body pf this hist action args))"
    and "\<exists>info :: service_info. snd (run_body pf this hist action args) =
           hist @ [Get (dev_url this),
                   Post (controlURL info)
                     \<lparr>req_action = action, req_service = service info,
                      req_args = map render_arg args\<rparr>]"
proof -
  obtain r h1 where g: "getService pf this hist (services this) = (r, h1)"
    by (cases "getService pf this hist (services this)")
  then have h1: "h1 = hist @ [Get (dev_url this)]"
    using getService_requests [of pf this hist "services this"] by simp
  from assms g obtain info res body where
    found: "r = Inr info"
      "fetch pf h1 (Post (controlURL info)
         \<lparr>req_action = action, req_service = service info,
          req_args = map render_arg args\<rparr>) = Inr res"
      "status res = 500" "parseString pf (text_of res) = Inr body" "upnp_error_725 pf body"
    by (auto simp: answers_725_def split: sum.splits)
  then have "on_fault pf body args =
      Resubmit (args[length args - 1 := (''NewLeaseDuration'', Num 0)])"
    by (simp add: on_fault_725_iff)
  with g found h1 have whole: "run_body pf this hist action args =
      (Resubmit (args[length args - 1 := (''NewLeaseDuration'', Num 0)]),
       hist @ [Get (dev_url this),
               Post (controlURL info)
                 \<lparr>req_action = action, req_service = service info,
                  req_args = map render_arg args\<rparr>])"
    by (simp add: run_body_def Let_def)
  then show "run_body pf this hist action args =
           (Resubmit (args[length args - 1 := (''NewLeaseDuration'', Num 0)]),
            snd (run_body pf this hist action args))"
    by simp
  from whole have "snd (run_body pf this hist action args) =
           hist @ [Get (dev_url this),
                   Post (controlURL info)
                     \<lparr>req_action = action, req_service = service info,
                      req_args = map render_arg args\<rparr>]"
    by simp
  then show "\<exists>info :: service_info. snd (run_body pf this hist action args) =
           hist @ [Get (dev_url this),
                   Post (controlURL info)
                     \<lparr>req_action = action, req_service = service info,
                      req_args = map render_arg args\<rparr>]"
    by blast
qed





text \<open>Against a gateway that answers every request with fault 725 the call never
  returns.\<close>

lemma run_never_returns_while_725:
  assumes always: "\<And>hist args. answers_725 pf this hist action args"
  shows "run pf this hist action args = None"
proof -
  let ?P = "\<lambda>p t (h :: request list) a (as :: (string \<times> js_val) list)
              (z :: (error + xml option) \<times> request list). \<not> (p = pf \<and> t = this \<and> a = action)"
  have pass: "?P p t h a as z"
    if ih: "\<And>p t h a as z. run' p t h a as = Some z \<Longrightarrow> ?P p t h a as z"
      and eq: "(case run_body p t h a as of
                 (Return v, hist') \<Rightarrow> Some (Inr v, hist')
               | (Throw err, hist') \<Rightarrow> Some (Inl err, hist')
               | (Resubmit args', hist') \<Rightarrow> run' p t hist' a args') = Some z"
    for run' p t h a as z
  proof
    assume here: "p = pf \<and> t = this \<and> a = action"
    with always have "answers_725 p t h a as" by simp
    from answers_725_pass(1) [OF this] obtain as' h' where
      "run_body p t h a as = (Resubmit as', h')" by blast
    with eq have "run' p t h' a as' = Some z" by simp
    from ih [OF this] here show False by simp
  qed
  have "?P pf this hist action args z" if "run pf this hist action args = Some z" for z
    by (rule run.raw_induct [where P = ?P, OF pass that])
  then show ?thesis
    by (cases "run pf this hist action args") auto
qed

section \<open>Fault 725 against the example gateway\<close>

lemma lower_UPnPError: "toLowerCase ''UPnPError'' = ''upnperror''"
  by code_simp

lemma show_int_small: "show_int 1 = ''1''" "show_int 7200 = ''7200''"
  by (simp_all add: show_int_def show_nat.simps)

lemmas run_defs = run_body_def on_fault_def getNamespace_def render_arg_def lacks_def
  faults_then_ok_def always_725_def fault_725_def mapping_response_def soap_ns_def
  add_mapping_args_def add_mapping_post_def root_desc_def
  lower_UPnPError show_int_small show_int_6690

lemma ip_only_service:
  "getService (router ip_only replies) igd hist (services igd) =
     (Inr \<lparr>service = ''urn:schemas-upnp-org:service:WANIPConnection:1'',
           SCPDURL = ''http://192.168.1.1:5000/WANIPCn.xml'',
           controlURL = ''http://192.168.1.1:5000/ctl/IPConn''\<rparr>, hist @ [root_desc])"
  by (simp add: device_defs doc_defs root_desc_def)

lemma router_fields:
  "fetch (router doc replies) hist (Post u sr) = Inr (replies (posts hist))"
  "parseString (router doc replies) ''fault725'' = Inr fault_725"
  "parseString (router doc replies) ''fault725env'' = Inr fault_725_soap_env"
  "parseString (router doc replies) ''response'' = Inr mapping_response"
  "js_Number (router doc replies) ''725'' = Some 725"
  by (simp_all add: router_def)








text \<open>The same fault under the prefix \<^verbatim>\<open>SOAP-ENV\<close> is not taken for fault 725: reading
  \<^verbatim>\<open>body['s:Body']['s:Fault']\<close> throws, and nothing is resubmitted.\<close>

lemma fault_725_other_prefix_throws:
  "\<not> answers_725 (router ip_only always_725_soap_env) igd [] ''AddPortMapping''
       (add_mapping_args (Num 7200)) \<and>
   run (router ip_only always_725_soap_env) igd [] ''AddPortMapping''
     (add_mapping_args (Num 7200)) =
   Some (Inl (TypeError ''Cannot read properties of undefined''),
         [root_desc, add_mapping_post ''7200''])"
proof -
  have pass: "run_body (router ip_only always_725_soap_env) igd [] ''AddPortMapping''
      (add_mapping_args (Num 7200)) =
    (Throw (TypeError ''Cannot read properties of undefined''),
     [root_desc, add_mapping_post ''7200''])"
    by (simp add: run_defs ip_only_service router_fields always_725_soap_env_def
        fault_725_soap_env_def)
  then have "\<not> answers_725 (router ip_only always_725_soap_env) igd [] ''AddPortMapping''
       (add_mapping_args (Num 7200))"
    using run_body_725_iff [of "router ip_only always_725_soap_env" igd "[]"
        "''AddPortMapping''" "add_mapping_args (Num 7200)"]
    by simp
  with run_Throw [OF pass] show ?thesis by simp
qed

lemma run_never_returns_witness:
  "run (router ip_only always_725) igd [] ''AddPortMapping'' (add_mapping_args (Num 7200)) = None"
proof (rule run_never_returns_while_725)
  fix hist args
  have "\<exists>a. fst (run_body (router ip_only always_725) igd hist ''AddPortMapping'' args) =
      Resubmit a"
    by (simp add: run_body_def on_fault_def ip_only_service router_fields always_725_def
        fault_725_def lacks_def lower_UPnPError)
  then show "answers_725 (router ip_only always_725) igd hist ''AddPortMapping'' args"
    by (simp add: run_body_725_iff)
qed

end
